theory Spec2Isabelle
  imports Complex_Main
begin

section \<open>Irradiance models of pvlib/irradiance.py\<close>

text \<open>
  The module computes irradiance components on a tilted surface from pandas Series of
  measurements. Conventions of the embedding:
  \<^item> a Python float is a \<^typ>\<open>real\<close>. In globalinplane, where the claims turn on
    it, the product and the sums are rounded to doubles as Python rounds them; elsewhere
    the arithmetic is exact. NaN and the infinities of an overflow or of a division by
    zero are outside the model (the divisors of klucher1979 and perez are shown to be
    non-zero on the documented ranges);
  \<^item> a pandas Series is a \<^typ>\<open>real list\<close>; the Series handed to one call share one
    index, so element-wise arithmetic pairs equal positions (\<open>map2\<close>), and the theorems
    assume equal lengths;
  \<^item> \<open>SurfTilt\<close> and \<open>SurfAz\<close> are plain numbers (the \<open>'num'\<close> of the \<open>Expect\<close>
    tables), broadcast over the Series;
  \<^item> an exception is the \<open>Inl\<close> of a sum; a Series that the function overwrites in place
    is returned next to the result, as the caller finds it after the call.
\<close>

subsection \<open>Library functions the module calls\<close>

text \<open>
  numpy and pandas are read as their current releases document them. \<open>KeyError\<close> carries
  the key that a dictionary does not hold.
\<close>

datatype error = KeyError string | TypeError | ValueError | AxisError | IndexError

text \<open>\<open>np.radians\<close>.\<close>

definition np_radians :: "real \<Rightarrow> real" where
  "np_radians x = x * pi / 180"

text \<open>
  Modelled from the spec: \<open>pvl_tools.cosd\<close> and \<open>pvl_tools.sind\<close> are not among the
  source files; they are the "trigonometric-in-degrees helpers", cosine and sine of an
  angle given in decimal degrees.
\<close>

definition cosd :: "real \<Rightarrow> real" where
  "cosd x = cos (np_radians x)"

definition sind :: "real \<Rightarrow> real" where
  "sind x = sin (np_radians x)"

text \<open>
  A Python number handed to a library function is an \<open>int\<close> or a \<open>float\<close>; the
  library tells them apart.
\<close>

datatype pynum = PyInt int | PyFloat real

text \<open>
  \<open>np.max(a, axis)\<close> on a one-dimensional \<open>a\<close>. The second positional parameter of
  \<open>np.max\<close> is the axis to reduce along, not a second operand (the element-wise maximum
  of two operands is \<open>np.maximum\<close>). An axis that is no integer is refused; an
  integer axis other than \<open>0\<close> and \<open>-1\<close> is out of bounds for one dimension; an empty
  \<open>a\<close> has no maximum; otherwise the result is one number, the largest element.
  The error classes are those numpy raises for an array. For a Series numpy hands the
  call to \<open>Series.max\<close>, which refuses an axis that is no integer with \<open>ValueError\<close>
  where the model has \<open>TypeError\<close>, and returns NaN for an empty Series where the model
  has \<open>ValueError\<close>: the class of the error differs, that the call with a float for the
  axis raises and returns no number does not.
\<close>

definition np_max :: "real list \<Rightarrow> pynum \<Rightarrow> error + real" where
  "np_max a axis =
     (case axis of
        PyFloat f \<Rightarrow> Inl TypeError
      | PyInt k \<Rightarrow>
          if k = 0 \<or> k = - 1
          then (case a of [] \<Rightarrow> Inl ValueError | x # xs \<Rightarrow> Inr (fold max xs x))
          else Inl AxisError)"

text \<open>
  \<open>s[cond] = v\<close> on a Series \<open>s\<close>, for a boolean Series \<open>cond\<close> on the same index:
  the rows where \<open>cond\<close> holds are overwritten, by the number \<open>v\<close> or by the same row
  of the Series \<open>t\<close>. The Series is changed in place; the model returns it as changed.
\<close>

definition setitem_mask :: "bool list \<Rightarrow> 'a \<Rightarrow> 'a list \<Rightarrow> 'a list" where
  "setitem_mask cond v s = map2 (\<lambda>b x. if b then v else x) cond s"

definition setitem_mask_series :: "bool list \<Rightarrow> 'a list \<Rightarrow> 'a list \<Rightarrow> 'a list" where
  "setitem_mask_series cond t s = map (\<lambda>(b, v, x). if b then v else x) (zip cond (zip t s))"

text \<open>\<open>s[cond]\<close>: the rows of \<open>s\<close> where \<open>cond\<close> holds, in order.\<close>

definition getitem_mask :: "bool list \<Rightarrow> 'a list \<Rightarrow> 'a list" where
  "getitem_mask cond s = map snd (filter fst (zip cond s))"

text \<open>
  A comparison with NaN is false: \<open>e < c\<close> and \<open>e >= c\<close> on a row that may be NaN
  (\<open>None\<close>).
\<close>

definition nan_lt :: "real option \<Rightarrow> real \<Rightarrow> bool" where
  "nan_lt x c = (case x of None \<Rightarrow> False | Some v \<Rightarrow> v < c)"

definition nan_ge :: "real option \<Rightarrow> real \<Rightarrow> bool" where
  "nan_ge x c = (case x of None \<Rightarrow> False | Some v \<Rightarrow> c \<le> v)"

text \<open>
  \<open>np.array(rows)\<close> on a list of lists of numbers: a two-dimensional array when all rows
  have one length; rows of different lengths are refused with \<open>ValueError\<close>
  (inhomogeneous shape; releases before 1.24 built an array of the row lists instead,
  which has one dimension).
\<close>

definition np_array :: "real list list \<Rightarrow> error + real list list" where
  "np_array rows =
     (case rows of
        [] \<Rightarrow> Inr []
      | r # rs \<Rightarrow> if list_all (\<lambda>r'. length r' = length r) rs then Inr rows else Inl ValueError)"

text \<open>The shape of a two-dimensional array given by its rows.\<close>

definition shape :: "real list list \<Rightarrow> nat \<times> nat" where
  "shape m = (length m, case m of [] \<Rightarrow> 0 | r # rs \<Rightarrow> length r)"

text \<open>\<open>a.T[lo:hi].T\<close> on a two-dimensional array: the columns \<open>lo\<close> to \<open>hi - 1\<close>.\<close>

definition T_slice_T :: "nat \<Rightarrow> nat \<Rightarrow> real list list \<Rightarrow> real list list" where
  "T_slice_T lo hi m = transpose (take (hi - lo) (drop lo (transpose m)))"

text \<open>
  An index into an axis of length \<open>n\<close>: negative indices count from the end, anything
  else out of range is an \<open>IndexError\<close>.
\<close>

definition axis_index :: "nat \<Rightarrow> int \<Rightarrow> error + nat" where
  "axis_index n i =
     (if 0 \<le> i \<and> i < int n then Inr (nat i)
      else if - int n \<le> i \<and> i < 0 then Inr (nat (i + int n))
      else Inl IndexError)"

text \<open>
  \<open>m[rows, c]\<close> on a two-dimensional array, for a Series of integers \<open>rows\<close> and a
  column number \<open>c\<close>: the entries \<open>m[r, c]\<close>, one for each \<open>r\<close>.
\<close>

fun getitem_rows_col :: "real list list \<Rightarrow> int list \<Rightarrow> int \<Rightarrow> error + real list" where
  "getitem_rows_col m [] c =
     (case axis_index (snd (shape m)) c of Inl err \<Rightarrow> Inl err | Inr j \<Rightarrow> Inr [])"
| "getitem_rows_col m (r # rs) c =
     (case axis_index (fst (shape m)) r of
        Inl err \<Rightarrow> Inl err
      | Inr k \<Rightarrow>
          (case axis_index (snd (shape m)) c of
             Inl err \<Rightarrow> Inl err
           | Inr j \<Rightarrow>
               (case getitem_rows_col m rs c of
                  Inl err \<Rightarrow> Inl err
                | Inr vs \<Rightarrow> Inr (m ! k ! j # vs))))"

subsection \<open>extraradiation\<close>

text \<open>
  \<^verbatim>\<open>
  B=2 * np.pi * var.doy / 365
  Rfact2=1.00011 + 0.034221*(np.cos(B)) + 0.00128*(np.sin(B))
         + 0.000719*(np.cos(2 * B)) + 7.7e-05*(np.sin(2 * B))
  Ea=1367 * Rfact2
  \<close>
\<close>

definition extraradiation :: "int \<Rightarrow> real" where
  "extraradiation doy =
     (let B = 2 * pi * real_of_int doy / 365;
          Rfact2 = 1.00011 + 0.034221 * cos B + 0.00128 * sin B
                   + 0.000719 * cos (2 * B) + 0.000077 * sin (2 * B);
          Ea = 1367 * Rfact2
      in Ea)"

subsection \<open>Arithmetic on doubles\<close>







subsection \<open>globalinplane\<close>



subsection \<open>The incidence cosine\<close>

text \<open>
  haydavies1980, klucher1979 and reindl1990 open with the same expression:
  \<^verbatim>\<open>
  COSTT=pvl_tools.cosd(SurfTilt)*pvl_tools.cosd(SunZen)
        + pvl_tools.sind(SurfTilt)*pvl_tools.sind(SunZen)*pvl_tools.cosd(SunAz - SurfAz)
  \<close>
\<close>

definition COSTT_of :: "real \<Rightarrow> real \<Rightarrow> real list \<Rightarrow> real list \<Rightarrow> real list" where
  "COSTT_of SurfTilt SurfAz SunZen SunAz =
     map2 (\<lambda>zen az. cosd SurfTilt * cosd zen + sind SurfTilt * sind zen * cosd (az - SurfAz))
       SunZen SunAz"

subsection \<open>haydavies1980\<close>

text \<open>
  \<^verbatim>\<open>
  RB=np.max(COSTT,0) / np.max(pvl_tools.cosd(SunZen),0.01745)
  AI=DNI / HExtra
  SkyDiffuse=DHI*((AI*(RB) + (1 - AI)*(0.5)*((1 + pvl_tools.cosd(SurfTilt)))))
  return SkyDiffuse
  \<close>
  Both calls of \<open>np.max\<close> pass the intended floor where the axis goes.
\<close>

definition haydavies1980 ::
  "real \<Rightarrow> real \<Rightarrow> real list \<Rightarrow> real list \<Rightarrow> real list \<Rightarrow> real list \<Rightarrow> real list
   \<Rightarrow> error + real list" where
  "haydavies1980 SurfTilt SurfAz DHI DNI HExtra SunZen SunAz =
     (let COSTT = COSTT_of SurfTilt SurfAz SunZen SunAz in
      case np_max COSTT (PyInt 0) of
        Inl err \<Rightarrow> Inl err
      | Inr num \<Rightarrow>
          (case np_max (map cosd SunZen) (PyFloat 0.01745) of
             Inl err \<Rightarrow> Inl err
           | Inr den \<Rightarrow>
               (let RB = num / den;
                    AI = map2 (/) DNI HExtra;
                    SkyDiffuse =
                      map2 (\<lambda>dhi ai. dhi * (ai * RB + (1 - ai) * 0.5 * (1 + cosd SurfTilt)))
                        DHI AI
                in Inr SkyDiffuse)))"

subsection \<open>klucher1979\<close>

text \<open>
  \<^verbatim>\<open>
  GHI[GHI < DHI]=DHI
  GHI[GHI < 1e-06]=1e-06
  COSTT=...
  F=1 - ((DHI / GHI) ** 2)
  SkyDiffuse=DHI*((0.5*((1 + pvl_tools.cosd(SurfTilt)))))
             *((1 + F*(((pvl_tools.sind(SurfTilt / 2)) ** 3))))
             *((1 + F*(((COSTT) ** 2))*(((pvl_tools.sind(SunZen)) ** 3))))
  return SkyDiffuse
  \<close>
  The two assignments write into the Series the caller passed as \<open>GHI\<close>. The model
  returns the pair of \<open>SkyDiffuse\<close> and the caller's \<open>GHI\<close> as it is after the call.
\<close>

definition klucher1979 ::
  "real \<Rightarrow> real \<Rightarrow> real list \<Rightarrow> real list \<Rightarrow> real list \<Rightarrow> real list
   \<Rightarrow> real list \<times> real list" where
  "klucher1979 SurfTilt SurfAz DHI GHI SunZen SunAz =
     (let GHI1 = setitem_mask_series (map2 (<) GHI DHI) DHI GHI;
          GHI2 = setitem_mask (map (\<lambda>g. g < 0.000001) GHI1) 0.000001 GHI1;
          COSTT = COSTT_of SurfTilt SurfAz SunZen SunAz;
          F = map2 (\<lambda>dhi ghi. 1 - (dhi / ghi)\<^sup>2) DHI GHI2;
          SkyDiffuse =
            map (\<lambda>(dhi, f, costt, zen).
                   dhi * (0.5 * (1 + cosd SurfTilt)) * (1 + f * (sind (SurfTilt / 2)) ^ 3)
                   * (1 + f * costt\<^sup>2 * (sind zen) ^ 3))
              (zip DHI (zip F (zip COSTT SunZen)))
      in (SkyDiffuse, GHI2))"

subsection \<open>reindl1990\<close>

text \<open>
  \<^verbatim>\<open>
  small=1e-06
  COSTT=...
  RB=np.max(COSTT,0) / np.max(pvl_tools.cosd(SunZen),0.01745)
  AI=DNI / HExtra
  GHI[GHI < small]=small
  HB=DNI*(pvl_tools.cosd(SunZen))
  HB[HB < 0]=0
  GHI[GHI < 0]=0
  F=np.sqrt(HB / GHI)
  SCUBE=(pvl_tools.sind(SurfTilt*(0.5))) ** 3
  SkyDiffuse=DHI*((AI*(RB) + (1 - AI)*(0.5)*((1 + pvl_tools.cosd(SurfTilt)))*((1 + F*(SCUBE)))))
  return SkyDiffuse
  \<close>
  The model returns the outcome next to the caller's \<open>GHI\<close> as it is after the call; an
  exception raised before the first assignment leaves \<open>GHI\<close> as it was.
\<close>

definition reindl1990 ::
  "real \<Rightarrow> real \<Rightarrow> real list \<Rightarrow> real list \<Rightarrow> real list \<Rightarrow> real list \<Rightarrow> real list \<Rightarrow> real list
   \<Rightarrow> (error + real list) \<times> real list" where
  "reindl1990 SurfTilt SurfAz DHI DNI GHI HExtra SunZen SunAz =
     (let small = 0.000001;
          COSTT = COSTT_of SurfTilt SurfAz SunZen SunAz in
      case np_max COSTT (PyInt 0) of
        Inl err \<Rightarrow> (Inl err, GHI)
      | Inr num \<Rightarrow>
          (case np_max (map cosd SunZen) (PyFloat 0.01745) of
             Inl err \<Rightarrow> (Inl err, GHI)
           | Inr den \<Rightarrow>
               (let RB = num / den;
                    AI = map2 (/) DNI HExtra;
                    GHI1 = setitem_mask (map (\<lambda>g. g < small) GHI) small GHI;
                    HB = map2 (\<lambda>dni zen. dni * cosd zen) DNI SunZen;
                    HB1 = setitem_mask (map (\<lambda>h. h < 0) HB) 0 HB;
                    GHI2 = setitem_mask (map (\<lambda>g. g < 0) GHI1) 0 GHI1;
                    F = map2 (\<lambda>hb ghi. sqrt (hb / ghi)) HB1 GHI2;
                    SCUBE = (sind (SurfTilt * 0.5)) ^ 3;
                    SkyDiffuse =
                      map (\<lambda>(dhi, ai, f).
                             dhi * (ai * RB
                                    + (1 - ai) * 0.5 * (1 + cosd SurfTilt) * (1 + f * SCUBE)))
                        (zip DHI (zip AI F))
                in (Inr SkyDiffuse, GHI2))))"

subsection \<open>GetPerezCoefficients\<close>

text \<open>The tables of the dictionary literal \<open>coeffdict\<close>, entry by entry as written.\<close>

definition allsitescomposite1990 :: "real list list" where
  "allsitescomposite1990 =
     [[- 0.008, 0.588, - 0.062, - 0.06, 0.072, - 0.022],
      [0.13, 0.683, - 0.151, - 0.019, 0.066, - 0.029],
      [0.33, 0.487, - 0.221, 0.055, - 0.064, - 0.026],
      [0.568, 0.187, - 0.295, 0.109, - 0.152, - 0.014],
      [0.873, - 0.392, - 0.362, 0.226, - 0.462, 0.001],
      [1.132, - 1.237, - 0.412, 0.288, - 0.823, 0.056],
      [1.06, - 1.6, - 0.359, 0.264, - 1.127, 0.131],
      [0.678, - 0.327, - 0.25, 0.156, - 1.377, 0.251]]"

definition allsitescomposite1988 :: "real list list" where
  "allsitescomposite1988 =
     [[- 0.018, 0.705, - 0.071, 0, - 0.058, 0.102, - 0.026],
      [0.191, 0.645, - 0.171, 0.012, 0.009, - 0.027],
      [0.44, 0.378, - 0.256, 0.087, - 0.104, - 0.025],
      [0.756, - 0.121, - 0.346, 0.179, - 0.321, - 0.008],
      [0.996, - 0.645, - 0.405, 0.26, - 0.59, 0.017],
      [1.098, - 1.29, - 0.393, 0.269, - 0.832, 0.075],
      [0.973, - 1.135, - 0.378, 0.124, - 0.258, 0.149],
      [0.689, - 0.412, - 0.273, 0.199, - 1.675, 0.237]]"

definition sandiacomposite1988 :: "real list list" where
  "sandiacomposite1988 =
     [[- 0.196, 1.084, - 0.006, - 0.114, 0.18, - 0.019],
      [0.236, 0.519, - 0.18, - 0.011, 0.02, - 0.038],
      [0.454, 0.321, - 0.255, 0.072, - 0.098, - 0.046],
      [0.866, - 0.381, - 0.375, 0.203, - 0.403, - 0.049],
      [1.026, - 0.711, - 0.426, 0.273, - 0.602, - 0.061],
      [0.978, - 0.986, - 0.35, 0.28, - 0.915, - 0.024],
      [0.748, - 0.913, - 0.236, 0.173, - 1.045, 0.065],
      [0.318, - 0.757, 0.103, 0.062, - 1.698, 0.236]]"

definition usacomposite1988 :: "real list list" where
  "usacomposite1988 =
     [[- 0.034, 0.671, - 0.059, - 0.059, 0.086, - 0.028],
      [0.255, 0.474, - 0.191, 0.018, - 0.014, - 0.033],
      [0.427, 0.349, - 0.245, 0.093, - 0.121, - 0.039],
      [0.756, - 0.213, - 0.328, 0.175, - 0.304, - 0.027],
      [1.02, - 0.857, - 0.385, 0.28, - 0.638, - 0.019],
      [1.05, - 1.344, - 0.348, 0.28, - 0.893, 0.037],
      [0.974, - 1.507, - 0.37, 0.154, - 0.568, 0.109],
      [0.744, - 1.817, - 0.256, 0.246, - 2.618, 0.23]]"

definition france1988 :: "real list list" where
  "france1988 =
     [[0.013, 0.764, - 0.1, - 0.058, 0.127, - 0.023],
      [0.095, 0.92, - 0.152, 0, 0.051, - 0.02],
      [0.464, 0.421, - 0.28, 0.064, - 0.051, - 0.002],
      [0.759, - 0.009, - 0.373, 0.201, - 0.382, 0.01],
      [0.976, - 0.4, - 0.436, 0.271, - 0.638, 0.051],
      [1.176, - 1.254, - 0.462, 0.295, - 0.975, 0.129],
      [1.106, - 1.563, - 0.398, 0.301, - 1.442, 0.212],
      [0.934, - 1.501, - 0.271, 0.42, - 2.917, 0.249]]"

definition phoenix1988 :: "real list list" where
  "phoenix1988 =
     [[- 0.003, 0.728, - 0.097, - 0.075, 0.142, - 0.043],
      [0.279, 0.354, - 0.176, 0.03, - 0.055, - 0.054],
      [0.469, 0.168, - 0.246, 0.048, - 0.042, - 0.057],
      [0.856, - 0.519, - 0.34, 0.176, - 0.38, - 0.031],
      [0.941, - 0.625, - 0.391, 0.188, - 0.36, - 0.049],
      [1.056, - 1.134, - 0.41, 0.281, - 0.794, - 0.065],
      [0.901, - 2.139, - 0.269, 0.118, - 0.665, 0.046],
      [0.107, 0.481, 0.143, - 0.111, - 0.137, 0.234]]"

definition elmonte1988 :: "real list list" where
  "elmonte1988 =
     [[0.027, 0.701, - 0.119, - 0.058, 0.107, - 0.06],
      [0.181, 0.671, - 0.178, - 0.079, 0.194, - 0.035],
      [0.476, 0.407, - 0.288, 0.054, - 0.032, - 0.055],
      [0.875, - 0.218, - 0.403, 0.187, - 0.309, - 0.061],
      [1.166, - 1.014, - 0.454, 0.211, - 0.41, - 0.044],
      [1.143, - 2.064, - 0.291, 0.097, - 0.319, 0.053],
      [1.094, - 2.632, - 0.259, 0.029, - 0.422, 0.147],
      [0.155, 1.723, 0.163, - 0.131, - 0.019, 0.277]]"

definition osage1988 :: "real list list" where
  "osage1988 =
     [[- 0.353, 1.474, 0.057, - 0.175, 0.312, 0.009],
      [0.363, 0.218, - 0.212, 0.019, - 0.034, - 0.059],
      [- 0.031, 1.262, - 0.084, - 0.082, 0.231, - 0.017],
      [0.691, 0.039, - 0.295, 0.091, - 0.131, - 0.035],
      [1.182, - 1.35, - 0.321, 0.408, - 0.985, - 0.088],
      [0.764, 0.019, - 0.203, 0.217, - 0.294, - 0.103],
      [0.219, 1.412, 0.244, 0.471, - 2.988, 0.034],
      [3.578, 22.231, - 10.745, 2.426, 4.892, - 5.687]]"

definition albuquerque1988 :: "real list list" where
  "albuquerque1988 =
     [[0.034, 0.501, - 0.094, - 0.063, 0.106, - 0.044],
      [0.229, 0.467, - 0.156, - 0.005, - 0.019, - 0.023],
      [0.486, 0.241, - 0.253, 0.053, - 0.064, - 0.022],
      [0.874, - 0.393, - 0.397, 0.181, - 0.327, - 0.037],
      [1.193, - 1.296, - 0.501, 0.281, - 0.656, - 0.045],
      [1.056, - 1.758, - 0.374, 0.226, - 0.759, 0.034],
      [0.901, - 4.783, - 0.109, 0.063, - 0.97, 0.196],
      [0.851, - 7.055, - 0.053, 0.06, - 2.833, 0.33]]"

definition capecanaveral1988 :: "real list list" where
  "capecanaveral1988 =
     [[0.075, 0.533, - 0.124, - 0.067, 0.042, - 0.02],
      [0.295, 0.497, - 0.218, - 0.008, 0.003, - 0.029],
      [0.514, 0.081, - 0.261, 0.075, - 0.16, - 0.029],
      [0.747, - 0.329, - 0.325, 0.181, - 0.416, - 0.03],
      [0.901, - 0.883, - 0.297, 0.178, - 0.489, 0.008],
      [0.591, - 0.044, - 0.116, 0.235, - 0.999, 0.098],
      [0.537, - 2.402, 0.32, 0.169, - 1.971, 0.31],
      [- 0.805, 4.546, 1.072, - 0.258, - 0.95, 0.753]]"

definition albany1988 :: "real list list" where
  "albany1988 =
     [[0.012, 0.554, - 0.076, - 0.052, 0.084, - 0.029],
      [0.267, 0.437, - 0.194, 0.016, 0.022, - 0.036],
      [0.42, 0.336, - 0.237, 0.074, - 0.052, - 0.032],
      [0.638, - 0.001, - 0.281, 0.138, - 0.189, - 0.012],
      [1.019, - 1.027, - 0.342, 0.271, - 0.628, 0.014],
      [1.149, - 1.94, - 0.331, 0.322, - 1.097, 0.08],
      [1.434, - 3.994, - 0.492, 0.453, - 2.376, 0.117],
      [1.007, - 2.292, - 0.482, 0.39, - 3.368, 0.229]]"

text \<open>The dictionary: the eleven keys in the order of the literal.\<close>

definition coeffdict :: "(string \<times> real list list) list" where
  "coeffdict =
     [(''allsitescomposite1990'', allsitescomposite1990),
      (''allsitescomposite1988'', allsitescomposite1988),
      (''sandiacomposite1988'', sandiacomposite1988),
      (''usacomposite1988'', usacomposite1988),
      (''france1988'', france1988),
      (''phoenix1988'', phoenix1988),
      (''elmonte1988'', elmonte1988),
      (''osage1988'', osage1988),
      (''albuquerque1988'', albuquerque1988),
      (''capecanaveral1988'', capecanaveral1988),
      (''albany1988'', albany1988)]"

text \<open>
  \<^verbatim>\<open>
  array=np.array(coeffdict[perezmodelt])
  F1coeffs = array.T[0:3].T
  F2coeffs = array.T[3:7].T
  return F1coeffs ,F2coeffs
  \<close>
  A key that \<open>coeffdict\<close> does not hold raises \<open>KeyError\<close>.
\<close>

definition GetPerezCoefficients :: "string \<Rightarrow> error + real list list \<times> real list list" where
  "GetPerezCoefficients perezmodelt =
     (case map_of coeffdict perezmodelt of
        None \<Rightarrow> Inl (KeyError perezmodelt)
      | Some rows \<Rightarrow>
          (case np_array rows of
             Inl err \<Rightarrow> Inl err
           | Inr array \<Rightarrow>
               (let F1coeffs = T_slice_T 0 3 array;
                    F2coeffs = T_slice_T 3 7 array
                in Inr (F1coeffs, F2coeffs))))"

subsection \<open>perez\<close>

text \<open>
  \<^verbatim>\<open>
  e = ((var.DHI[Dhfilter] + var.DNI[Dhfilter])/var.DHI[Dhfilter]+kappa*z[Dhfilter]**3)
      /(1+kappa*z[Dhfilter]**3).reindex_like(var.SunZen)
  \<close>
  The divisor is put back on the full index, so the quotient has a row for every row of
  the arguments: the value where \<open>DHI > 0\<close>, NaN elsewhere.
\<close>

definition perez_e :: "real \<Rightarrow> real list \<Rightarrow> real list \<Rightarrow> real list \<Rightarrow> real option list" where
  "perez_e kappa DHI DNI z =
     map (\<lambda>(dhi, dni, zi).
            if 0 < dhi then Some (((dhi + dni) / dhi + kappa * zi ^ 3) / (1 + kappa * zi ^ 3))
            else None)
       (zip DHI (zip DNI z))"

text \<open>
  \<^verbatim>\<open>
  ebin = pd.Series(np.zeros(var.DHI.shape[0]),index=e.index)
  ebin[(e<1.065)]= 1
  ebin[(e>=1.065) & (e<1.23)]= 2
  ebin[(e>=1.23) & (e<1.5)]= 3
  ebin[(e>=1.5) & (e<1.95)]= 4
  ebin[(e>=1.95) & (e<2.8)]= 5
  ebin[(e>=2.8) & (e<4.5)]= 6
  ebin[(e>=4.5) & (e<6.2)]= 7
  ebin[e>=6.2] = 8
  \<close>
  The bins are whole numbers throughout, held as \<^typ>\<open>int\<close>.
\<close>

definition perez_ebin :: "real option list \<Rightarrow> int list" where
  "perez_ebin e =
     (let ebin0 = map (\<lambda>x. 0) e;
          ebin1 = setitem_mask (map (\<lambda>x. nan_lt x 1.065) e) 1 ebin0;
          ebin2 = setitem_mask (map (\<lambda>x. nan_ge x 1.065 \<and> nan_lt x 1.23) e) 2 ebin1;
          ebin3 = setitem_mask (map (\<lambda>x. nan_ge x 1.23 \<and> nan_lt x 1.5) e) 3 ebin2;
          ebin4 = setitem_mask (map (\<lambda>x. nan_ge x 1.5 \<and> nan_lt x 1.95) e) 4 ebin3;
          ebin5 = setitem_mask (map (\<lambda>x. nan_ge x 1.95 \<and> nan_lt x 2.8) e) 5 ebin4;
          ebin6 = setitem_mask (map (\<lambda>x. nan_ge x 2.8 \<and> nan_lt x 4.5) e) 6 ebin5;
          ebin7 = setitem_mask (map (\<lambda>x. nan_ge x 4.5 \<and> nan_lt x 6.2) e) 7 ebin6;
          ebin8 = setitem_mask (map (\<lambda>x. nan_ge x 6.2) e) 8 ebin7
      in ebin8)"

text \<open>
  \<^verbatim>\<open>
  F1= F1c[ebin,0] + F1c[ebin,1]*delt[ebinfilter] + F1c[ebin,2]*z[ebinfilter]
  F1[F1<0]=0;
  \<close>
  and the same for \<open>F2\<close>, on the rows that have a bin.
\<close>

definition perez_F ::
  "real list list \<Rightarrow> int list \<Rightarrow> real list \<Rightarrow> real list \<Rightarrow> error + real list" where
  "perez_F Fc ebin delt_f z_f =
     (case getitem_rows_col Fc ebin 0 of
        Inl err \<Rightarrow> Inl err
      | Inr c0 \<Rightarrow>
          (case getitem_rows_col Fc ebin 1 of
             Inl err \<Rightarrow> Inl err
           | Inr c1 \<Rightarrow>
               (case getitem_rows_col Fc ebin 2 of
                  Inl err \<Rightarrow> Inl err
                | Inr c2 \<Rightarrow>
                    (let F = map (\<lambda>(a, b, d, c, zi). a + b * d + c * zi)
                               (zip c0 (zip c1 (zip delt_f (zip c2 z_f))))
                     in Inr (setitem_mask (map (\<lambda>f. f < 0) F) 0 F)))))"

text \<open>
  The body of perez up to the combined expression:
  \<^verbatim>\<open>
  kappa = 1.041 #for SunZen in radians
  z = var.SunZen*np.pi/180# # convert to radians
  Dhfilter = var.DHI > 0
  e = ...
  ebin = ...
  ebinfilter=ebin>0
  ebin=ebin-1 #correct for 0 indexing
  ebin[ebinfilter==False]=np.NaN
  ebin=ebin.dropna().astype(int)
  var.HExtra[var.HExtra==0]=.00000001 #very hacky, fix this
  delt = var.DHI*var.AM/var.HExtra
  F1c,F2c = GetPerezCoefficients(var.modelt)
  F1= ...
  F2= ...
  A = pvl_tools.cosd(var.SurfTilt)*pvl_tools.cosd(var.SunZen)
      + pvl_tools.sind(var.SurfTilt)*pvl_tools.sind(var.SunZen)*pvl_tools.cosd(var.SunAz-var.SurfAz);
  A[A < 0] = 0
  B = pvl_tools.cosd(var.SunZen);
  B[B < pvl_tools.cosd(85)] = pvl_tools.cosd(85)
  SkyDiffuse = var.DHI[ebinfilter]*( 0.5* (1-F1[ebinfilter])*(1+pvl_tools.cosd(var.SurfTilt))
               +F1[ebinfilter] * A[ebinfilter]/ B[ebinfilter]
               + F2[ebinfilter]* pvl_tools.sind(var.SurfTilt))
  \<close>
  \<open>F1\<close> and \<open>F2\<close> have the rows of \<open>ebinfilter\<close> already, so
  \<open>F1[ebinfilter]\<close> is \<open>F1\<close>.
\<close>

text \<open>
  Modelled from the spec: \<open>pvl_tools.Parse\<close> is not among the source files. It checks
  the arguments against the \<open>Expect\<close> table (the validation that the specification
  leaves to the caller's side), and \<open>var\<close> holds the arguments the caller passed
  ("in-place mutation of input series ... clamping GHI, HExtra"): the assignment to
  \<open>var.HExtra\<close> writes into the caller's Series, and the model returns that Series
  next to the outcome.
\<close>

definition perez_combined ::
  "real \<Rightarrow> real \<Rightarrow> real list \<Rightarrow> real list \<Rightarrow> real list \<Rightarrow> real list \<Rightarrow> real list \<Rightarrow> real list
   \<Rightarrow> string \<Rightarrow> (error + real list) \<times> real list" where
  "perez_combined SurfTilt SurfAz DHI DNI HExtra SunZen SunAz AM modelt =
     (let kappa = 1.041;
          z = map (\<lambda>zen. zen * pi / 180) SunZen;
          e = perez_e kappa DHI DNI z;
          ebin8 = perez_ebin e;
          ebinfilter = map (\<lambda>b. 0 < b) ebin8;
          ebin = getitem_mask ebinfilter (map (\<lambda>b. b - 1) ebin8);
          HExtra1 = setitem_mask (map (\<lambda>h. h = 0) HExtra) 0.00000001 HExtra;
          delt = map (\<lambda>(dhi, am, h). dhi * am / h) (zip DHI (zip AM HExtra1)) in
      case GetPerezCoefficients modelt of
        Inl err \<Rightarrow> (Inl err, HExtra1)
      | Inr (F1c, F2c) \<Rightarrow>
          (case perez_F F1c ebin (getitem_mask ebinfilter delt) (getitem_mask ebinfilter z) of
             Inl err \<Rightarrow> (Inl err, HExtra1)
           | Inr F1 \<Rightarrow>
               (case perez_F F2c ebin (getitem_mask ebinfilter delt) (getitem_mask ebinfilter z) of
                  Inl err \<Rightarrow> (Inl err, HExtra1)
                | Inr F2 \<Rightarrow>
                    (let A0 = COSTT_of SurfTilt SurfAz SunZen SunAz;
                         A = setitem_mask (map (\<lambda>a. a < 0) A0) 0 A0;
                         B0 = map cosd SunZen;
                         B = setitem_mask (map (\<lambda>b. b < cosd 85) B0) (cosd 85) B0;
                         SkyDiffuse =
                           map (\<lambda>(dhi, f1, a, b, f2).
                                  dhi * (0.5 * (1 - f1) * (1 + cosd SurfTilt) + f1 * a / b
                                         + f2 * sind SurfTilt))
                             (zip (getitem_mask ebinfilter DHI)
                                (zip F1
                                   (zip (getitem_mask ebinfilter A)
                                      (zip (getitem_mask ebinfilter B) F2))))
                     in (Inr SkyDiffuse, HExtra1)))))"

text \<open>
  \<^verbatim>\<open>
  SkyDiffuse[SkyDiffuse <= 0]= 0
  return pd.DataFrame({'In_Plane_SkyDiffuse':SkyDiffuse})
  \<close>
  The frame has the one column; the model returns it as a Series.
\<close>

definition perez ::
  "real \<Rightarrow> real \<Rightarrow> real list \<Rightarrow> real list \<Rightarrow> real list \<Rightarrow> real list \<Rightarrow> real list \<Rightarrow> real list
   \<Rightarrow> string \<Rightarrow> (error + real list) \<times> real list" where
  "perez SurfTilt SurfAz DHI DNI HExtra SunZen SunAz AM modelt =
     (case perez_combined SurfTilt SurfAz DHI DNI HExtra SunZen SunAz AM modelt of
        (Inl err, HExtra1) \<Rightarrow> (Inl err, HExtra1)
      | (Inr SkyDiffuse, HExtra1) \<Rightarrow>
          (Inr (setitem_mask (map (\<lambda>s. s \<le> 0) SkyDiffuse) 0 SkyDiffuse), HExtra1))"

subsection \<open>perez, row by row\<close>

text \<open>
  The specification describes perez for one row (stages 1 to 6 of its section 4.8): the
  clearness \<open>e\<close>, its bin among the breakpoints 1.065, 1.23, 1.5, 1.95, 2.8, 4.5, 6.2,
  the brightness \<open>delt\<close> with \<open>HExtra = 0\<close> replaced by \<open>1e-8\<close>, the coefficients
  \<open>F1\<close> and \<open>F2\<close> from the row of the table for the bin, both floored at 0, the
  geometric factors \<open>A\<close> and \<open>B\<close>, and the combined expression floored at 0. The two
  definitions below follow these words, for comparison with perez.
\<close>

definition perez_bin_spec :: "real \<Rightarrow> nat" where
  "perez_bin_spec e =
     (if e < 1.065 then 0 else if e < 1.23 then 1 else if e < 1.5 then 2
      else if e < 1.95 then 3 else if e < 2.8 then 4 else if e < 4.5 then 5
      else if e < 6.2 then 6 else 7)"

definition perez_row_spec ::
  "real \<Rightarrow> real \<Rightarrow> real list list \<Rightarrow> real \<times> real \<times> real \<times> real \<times> real \<times> real \<Rightarrow> real" where
  "perez_row_spec SurfTilt SurfAz table row =
     (case row of (dhi, dni, hextra, zen, az, am) \<Rightarrow>
        let kappa = 1.041;
            z = zen * pi / 180;
            e = ((dhi + dni) / dhi + kappa * z ^ 3) / (1 + kappa * z ^ 3);
            f = table ! perez_bin_spec e;
            delt = dhi * am / (if hextra = 0 then 0.00000001 else hextra);
            F1 = max 0 (f ! 0 + f ! 1 * delt + f ! 2 * z);
            F2 = max 0 (f ! 3 + f ! 4 * delt + f ! 5 * z);
            A = max 0 (cosd SurfTilt * cosd zen + sind SurfTilt * sind zen * cosd (az - SurfAz));
            B = max (cosd zen) (cosd 85)
        in max (dhi * (0.5 * (1 - F1) * (1 + cosd SurfTilt) + F1 * A / B + F2 * sind SurfTilt)) 0)"

text \<open>The value the eight assignments of \<open>perez_ebin\<close> leave in a row: 0 for NaN.\<close>

definition bin_of :: "real option \<Rightarrow> int" where
  "bin_of x = (case x of None \<Rightarrow> 0 | Some v \<Rightarrow> int (perez_bin_spec v) + 1)"

section \<open>Properties\<close>

subsection \<open>Angles in degrees\<close>

lemma np_radians_0: "np_radians 0 = 0"
  by (simp add: np_radians_def)

lemma np_radians_90: "np_radians 90 = pi / 2"
  by (simp add: np_radians_def)

lemma np_radians_180: "np_radians 180 = pi"
  by (simp add: np_radians_def)

lemma cosd_0: "cosd 0 = 1"
  by (simp add: cosd_def np_radians_0)

lemma sind_0: "sind 0 = 0"
  by (simp add: sind_def np_radians_0)

lemma cosd_90: "cosd 90 = 0"
  by (simp add: cosd_def np_radians_90)

lemma sind_90: "sind 90 = 1"
  by (simp add: sind_def np_radians_90)

lemma cosd_180: "cosd 180 = - 1"
  by (simp add: cosd_def np_radians_180)

lemma sind_180: "sind 180 = 0"
  by (simp add: sind_def np_radians_180)


subsection \<open>Rounding to a double\<close>
























subsection \<open>globalinplane\<close>




































subsection \<open>extraradiation\<close>

lemma cos_lower_quadratic: "1 - x\<^sup>2 / 2 \<le> cos (x::real)"
proof -
  have "\<bar>sin (x / 2)\<bar> \<le> \<bar>x / 2\<bar>" by (rule abs_sin_x_le_abs_x)
  then have "(sin (x / 2))\<^sup>2 \<le> (x / 2)\<^sup>2"
    by (simp only: abs_le_square_iff)
  moreover have "cos x = 1 - 2 * (sin (x / 2))\<^sup>2"
    using cos_double_sin [of "x / 2"] by simp
  ultimately show ?thesis by (simp add: power_divide)
qed

text \<open>The series with its cosines and sines replaced by bounds on them.\<close>

lemma Ea_upper:
  fixes c s c2 s2 b :: real
  assumes "c \<le> 1" "c2 \<le> 1" "s \<le> b" "s2 \<le> 2 * b" "b < 8 / 365"
  shows "1367 * (1.00011 + 0.034221 * c + 0.00128 * s + 0.000719 * c2 + 0.000077 * s2) < 1415.9"
  using assms by simp

lemma Ea_lower:
  fixes c s c2 s2 :: real
  assumes "1 - 32 / 133225 \<le> c" "1 - 128 / 133225 \<le> c2" "0 \<le> s" "0 \<le> s2"
  shows "1413.9 < 1367 * (1.00011 + 0.034221 * c + 0.00128 * s + 0.000719 * c2 + 0.000077 * s2)"
  using assms by simp

lemma extraradiation_day_1: "\<bar>extraradiation 1 - 1414.9\<bar> < 1"
proof -
  define B where "B = 2 * pi * real_of_int 1 / 365"
  have b0: "0 < B" and b1: "B < 8 / 365"
    using pi_gt_zero pi_less_4 by (simp_all add: B_def)
  have bsq: "B\<^sup>2 \<le> (8 / 365)\<^sup>2"
    using b0 b1 by (intro power_mono) simp_all
  have c1: "cos B \<le> 1" and c2: "cos (2 * B) \<le> 1" by simp_all
  have c3: "1 - B\<^sup>2 / 2 \<le> cos B" by (rule cos_lower_quadratic)
  have c4: "1 - (2 * B)\<^sup>2 / 2 \<le> cos (2 * B)" by (rule cos_lower_quadratic)
  have s1: "0 \<le> sin B" using b0 b1 pi_ge_two by (intro sin_ge_zero) simp_all
  have s2: "sin B \<le> B" using b0 by (intro sin_x_le_x) simp
  have s3: "0 \<le> sin (2 * B)" using b0 b1 pi_ge_two by (intro sin_ge_zero) simp_all
  have s4: "sin (2 * B) \<le> 2 * B" using b0 by (intro sin_x_le_x) simp
  have ea: "extraradiation 1 = 1367 * (1.00011 + 0.034221 * cos B + 0.00128 * sin B
                   + 0.000719 * cos (2 * B) + 0.000077 * sin (2 * B))"
    by (simp add: extraradiation_def Let_def B_def)
  have bsq': "B\<^sup>2 \<le> 64 / 133225" using bsq by (simp add: power2_eq_square)
  have c3': "1 - 32 / 133225 \<le> cos B" using c3 bsq' by linarith
  have "(2 * B)\<^sup>2 = 4 * B\<^sup>2" by (simp add: power_mult_distrib)
  then have c4': "1 - 128 / 133225 \<le> cos (2 * B)" using c4 bsq' by linarith
  have up: "extraradiation 1 < 1415.9"
    unfolding ea using c1 c2 s2 s4 b1 by (rule Ea_upper)
  have lo: "1413.9 < extraradiation 1"
    unfolding ea using c3' c4' s1 s3 by (rule Ea_lower)
  show ?thesis using up lo by (simp add: abs_less_iff)
qed

text \<open>
  C8, as stated, fails: the last coefficient of the series in the code is \<open>7.7e-05\<close>,
  that is \<open>0.000077\<close>, not \<open>0.0000077\<close>. On day 1 the sine it multiplies is
  positive, so the two series differ.
\<close>

theorem extraradiation_coefficient_counterexample:
  "extraradiation 1 \<noteq> 1367 * (1.00011 + 0.034221 * cos (2 * pi * 1 / 365)
                   + 0.00128 * sin (2 * pi * 1 / 365)
                   + 0.000719 * cos (2 * (2 * pi * 1 / 365))
                   + 0.0000077 * sin (2 * (2 * pi * 1 / 365)))"
proof -
  have "0 < sin (2 * (2 * pi * 1 / 365))"
    using pi_gt_zero by (intro sin_gt_zero) simp_all
  then show ?thesis
    by (simp add: extraradiation_def Let_def)
qed

text \<open>
  C8, amended. For every day of year in \<open>[1, 366]\<close>, extraradiation returns
  \<open>1367 * Rfact\<close> with \<open>Rfact = 1.00011 + 0.034221 cos B + 0.00128 sin B
  + 0.000719 cos 2B + 0.000077 sin 2B\<close> and \<open>B = 2 pi day / 365\<close>; for day 1 the result
  is within 1 W per square metre of 1414.9.
\<close>

theorem extraradiation_series:
  assumes "1 \<le> doy" "doy \<le> 366"
  shows "(let B = 2 * pi * real_of_int doy / 365;
              Rfact = 1.00011 + 0.034221 * cos B + 0.00128 * sin B
                      + 0.000719 * cos (2 * B) + 0.000077 * sin (2 * B)
          in extraradiation doy = 1367 * Rfact)
       \<and> \<bar>extraradiation 1 - 1414.9\<bar> < 1"
  using extraradiation_day_1 by (simp add: extraradiation_def Let_def)

theorem extraradiation_series_witness:
  "(1::int) \<le> 1 \<and> (1::int) \<le> 366 \<and> \<bar>extraradiation 1 - 1414.9\<bar> < 1"
  using extraradiation_series [of 1] by simp

subsection \<open>haydavies1980 and reindl1990: the beam-transposition ratio\<close>

lemma COSTT_example: "COSTT_of 90 180 [0, 90] [180, 180] = [0, 1]"
  by (simp add: COSTT_of_def cosd_0 cosd_90 sind_0 sind_90)

text \<open>Whatever the arguments, the second \<open>np.max\<close> raises: neither function returns.\<close>

lemma haydavies1980_always_raises:
  "haydavies1980 SurfTilt SurfAz DHI DNI HExtra SunZen SunAz \<noteq> Inr SkyDiffuse"
  by (simp add: haydavies1980_def np_max_def Let_def split: sum.splits)

lemma reindl1990_always_raises:
  "fst (reindl1990 SurfTilt SurfAz DHI DNI GHI HExtra SunZen SunAz) \<noteq> Inr SkyDiffuse"
  by (simp add: reindl1990_def np_max_def Let_def split: sum.splits)

text \<open>
  C1 fails on the code. For a vertical surface facing south and the sun at the zenith in
  the first row, on the southern horizon in the second, the call raises \<open>TypeError\<close>
  where the claim has it return a Series; and the numerator \<open>np.max(COSTT,0)\<close> is the
  one number 1, the largest of the rows \<open>[0, 1]\<close> of \<open>COSTT\<close>, where the claim has
  the row-wise \<open>max(COSTT, 0)\<close>.
\<close>

theorem haydavies1980_raises:
  "haydavies1980 90 180 [100, 100] [700, 700] [1400, 1400] [0, 90] [180, 180] = Inl TypeError
   \<and> np_max (COSTT_of 90 180 [0, 90] [180, 180]) (PyInt 0) = Inr 1"
  by (simp add: haydavies1980_def COSTT_example np_max_def)

text \<open>
  C6 fails on the code in the same way: reindl1990 has the same line for \<open>RB\<close>, and
  raises \<open>TypeError\<close> there, before it touches \<open>GHI\<close>.
\<close>

theorem reindl1990_raises:
  "reindl1990 90 180 [100, 100] [700, 700] [500, 500] [1400, 1400] [0, 90] [180, 180]
   = (Inl TypeError, [500, 500])"
  by (simp add: reindl1990_def COSTT_example np_max_def)

subsection \<open>The coefficient tables\<close>

text \<open>
  C2 fails on the code. The first row of the table \<open>allsitescomposite1988\<close> is written
  \<open>-0.071,0,\<close> where \<open>-0.0710,\<close> is meant, and so has seven entries;
  \<open>np.array\<close> refuses the table, and GetPerezCoefficients returns no sub-matrices for
  this name.
\<close>

theorem allsitescomposite1988_ragged:
  "map length allsitescomposite1988 = [7, 6, 6, 6, 6, 6, 6, 6]
   \<and> GetPerezCoefficients ''allsitescomposite1988'' = Inl ValueError"
  by (simp add: GetPerezCoefficients_def coeffdict_def allsitescomposite1988_def np_array_def)

subsection \<open>klucher1979\<close>

lemma setitem_mask_map: "setitem_mask (map p s) v s = map (\<lambda>x. if p x then v else x) s"
  by (induction s) (simp_all add: setitem_mask_def)

lemma setitem_mask_less:
  "setitem_mask (map (\<lambda>g. g < c) s) c s = map (\<lambda>g. max g c) (s :: real list)"
  by (induction s) (simp_all add: setitem_mask_def max_def)

lemma setitem_mask_series_less:
  "length t = length s \<Longrightarrow>
   setitem_mask_series (map2 (<) s t) t s = map2 (\<lambda>x y. max x y) s (t :: real list)"
proof (induction s arbitrary: t)
  case Nil
  then show ?case by (simp add: setitem_mask_series_def)
next
  case (Cons x s)
  then obtain y t' where t: "t = y # t'" by (cases t) auto
  with Cons show ?case by (auto simp add: setitem_mask_series_def max_def)
qed

lemma map_map2: "map g (map2 f xs ys) = map2 (\<lambda>x y. g (f x y)) xs ys"
  by (induction xs arbitrary: ys) (auto simp: zip_Cons1 split: list.splits)

lemma klucher1979_GHI_after:
  assumes "length DHI = length GHI"
  shows "snd (klucher1979 SurfTilt SurfAz DHI GHI SunZen SunAz)
         = map2 (\<lambda>ghi dhi. max (max ghi dhi) 0.000001) GHI DHI"
proof -
  have g: "setitem_mask_series (map2 (<) GHI DHI) DHI GHI = map2 (\<lambda>x y. max x y) GHI DHI"
    using assms by (rule setitem_mask_series_less)
  have "snd (klucher1979 SurfTilt SurfAz DHI GHI SunZen SunAz)
        = map (\<lambda>g. max g 0.000001) (map2 (\<lambda>x y. max x y) GHI DHI)"
    unfolding klucher1979_def Let_def g setitem_mask_less by (simp only: snd_conv)
  also have "\<dots> = map2 (\<lambda>ghi dhi. max (max ghi dhi) 0.000001) GHI DHI"
    by (rule map_map2)
  finally show ?thesis .
qed

lemma klucher1979_length:
  assumes "length DHI = n" "length GHI = n" "length SunZen = n" "length SunAz = n"
  shows "length (fst (klucher1979 SurfTilt SurfAz DHI GHI SunZen SunAz)) = n"
  using assms
  by (simp add: klucher1979_def Let_def setitem_mask_def setitem_mask_series_def COSTT_of_def)

lemma klucher1979_nth:
  assumes "length DHI = n" "length GHI = n" "length SunZen = n" "length SunAz = n" "i < n"
  shows "fst (klucher1979 SurfTilt SurfAz DHI GHI SunZen SunAz) ! i
         = DHI ! i * (0.5 * (1 + cosd SurfTilt))
           * (1 + (1 - (DHI ! i / max (max (GHI ! i) (DHI ! i)) 0.000001)\<^sup>2)
                  * (sind (SurfTilt / 2)) ^ 3)
           * (1 + (1 - (DHI ! i / max (max (GHI ! i) (DHI ! i)) 0.000001)\<^sup>2)
                  * (cosd SurfTilt * cosd (SunZen ! i)
                     + sind SurfTilt * sind (SunZen ! i) * cosd (SunAz ! i - SurfAz))\<^sup>2
                  * (sind (SunZen ! i)) ^ 3)"
proof -
  define G2 where "G2 = map2 (\<lambda>ghi dhi. max (max ghi dhi) 0.000001) GHI DHI"
  define C where "C = COSTT_of SurfTilt SurfAz SunZen SunAz"
  define F where "F = map2 (\<lambda>dhi ghi. 1 - (dhi / ghi)\<^sup>2) DHI G2"
  have "snd (klucher1979 SurfTilt SurfAz DHI GHI SunZen SunAz) = G2"
    unfolding G2_def using assms(1,2) by (intro klucher1979_GHI_after) simp
  then have g2: "setitem_mask
              (map (\<lambda>g. g < 0.000001) (setitem_mask_series (map2 (<) GHI DHI) DHI GHI)) 0.000001
              (setitem_mask_series (map2 (<) GHI DHI) DHI GHI) = G2"
    unfolding klucher1979_def Let_def by (simp only: snd_conv)
  have lG2: "length G2 = n" using assms(1,2) by (simp add: G2_def)
  have nG2: "G2 ! i = max (max (GHI ! i) (DHI ! i)) 0.000001"
    using assms(1,2,5) by (simp add: G2_def)
  have lC: "length C = n" using assms(3,4) by (simp add: C_def COSTT_of_def)
  have nC: "C ! i = cosd SurfTilt * cosd (SunZen ! i)
                     + sind SurfTilt * sind (SunZen ! i) * cosd (SunAz ! i - SurfAz)"
    using assms(3,4,5) by (simp add: C_def COSTT_of_def)
  have lF: "length F = n" using assms(1) lG2 by (simp add: F_def)
  have nF: "F ! i = 1 - (DHI ! i / G2 ! i)\<^sup>2"
    using assms(1,5) lG2 by (simp add: F_def)
  have k: "fst (klucher1979 SurfTilt SurfAz DHI GHI SunZen SunAz)
        = map (\<lambda>(dhi, f, costt, zen).
                   dhi * (0.5 * (1 + cosd SurfTilt)) * (1 + f * (sind (SurfTilt / 2)) ^ 3)
                   * (1 + f * costt\<^sup>2 * (sind zen) ^ 3))
              (zip DHI (zip F (zip C SunZen)))"
    unfolding klucher1979_def Let_def g2 F_def C_def by (simp only: fst_conv)
  show ?thesis
    unfolding k using assms(1,3,5) lF lC by (simp add: nF nC nG2)
qed

text \<open>The divisor of \<open>DHI / GHI\<close> is the clamped \<open>GHI\<close>, which is positive.\<close>

lemma klucher1979_divisor_positive: "0 < max (max ghi dhi) (0.000001::real)"
  by (simp add: less_max_iff_disj)

text \<open>
  C5. For Series of one length, klucher1979 clamps every row of \<open>GHI\<close> to
  \<open>max(GHI, DHI)\<close> and then to \<open>max(GHI, 1e-6)\<close>, and with
  \<open>F = 1 - (DHI/GHI)^2\<close> on the clamped \<open>GHI\<close> and \<open>COSTT\<close> the incidence cosine the
  row of the returned Series is
  \<open>DHI * 0.5 * (1 + cos SurfTilt) * (1 + F sin^3(SurfTilt/2)) * (1 + F COSTT^2 sin^3 SunZen)\<close>.
\<close>

theorem klucher1979_SkyDiffuse:
  assumes "length DHI = n" "length GHI = n" "length SunZen = n" "length SunAz = n" "i < n"
  shows "(let ghi = max (max (GHI ! i) (DHI ! i)) 0.000001;
              F = 1 - (DHI ! i / ghi)\<^sup>2;
              COSTT = cosd SurfTilt * cosd (SunZen ! i)
                      + sind SurfTilt * sind (SunZen ! i) * cosd (SunAz ! i - SurfAz);
              SkyDiffuse = fst (klucher1979 SurfTilt SurfAz DHI GHI SunZen SunAz)
          in length SkyDiffuse = n
           \<and> snd (klucher1979 SurfTilt SurfAz DHI GHI SunZen SunAz) ! i = ghi
           \<and> SkyDiffuse ! i
             = DHI ! i * 0.5 * (1 + cosd SurfTilt) * (1 + F * (sind (SurfTilt / 2)) ^ 3)
               * (1 + F * COSTT\<^sup>2 * (sind (SunZen ! i)) ^ 3))"
proof -
  have l: "length (fst (klucher1979 SurfTilt SurfAz DHI GHI SunZen SunAz)) = n"
    using assms(1-4) by (rule klucher1979_length)
  have "snd (klucher1979 SurfTilt SurfAz DHI GHI SunZen SunAz)
        = map2 (\<lambda>ghi dhi. max (max ghi dhi) 0.000001) GHI DHI"
    using assms(1,2) by (intro klucher1979_GHI_after) simp
  then have g: "snd (klucher1979 SurfTilt SurfAz DHI GHI SunZen SunAz) ! i
        = max (max (GHI ! i) (DHI ! i)) 0.000001"
    using assms(1,2,5) by simp
  show ?thesis
    unfolding Let_def klucher1979_nth [OF assms] l g by (simp add: mult.assoc)
qed

theorem klucher1979_SkyDiffuse_witness:
  "length [100::real] = 1 \<and> length [50::real] = 1 \<and> length [0::real] = 1
   \<and> length [180::real] = 1 \<and> (0::nat) < 1
   \<and> snd (klucher1979 0 180 [100] [50] [0] [180]) ! 0 = 100
   \<and> fst (klucher1979 0 180 [100] [50] [0] [180]) ! 0 = 100"
  using klucher1979_SkyDiffuse [of "[100]" 1 "[50]" "[0]" "[180]" 0 0 180]
  by (simp add: Let_def cosd_0 sind_0)

subsection \<open>Series overwritten in place\<close>

lemma perez_combined_HExtra_after:
  "snd (perez_combined SurfTilt SurfAz DHI DNI HExtra SunZen SunAz AM modelt)
   = setitem_mask (map (\<lambda>h. h = 0) HExtra) 0.00000001 HExtra"
  unfolding perez_combined_def Let_def
  by (simp only: snd_conv split: sum.split prod.split) simp

lemma perez_HExtra_after:
  "snd (perez SurfTilt SurfAz DHI DNI HExtra SunZen SunAz AM modelt)
   = map (\<lambda>h. if h = 0 then 0.00000001 else h) HExtra"
proof -
  have "snd (perez SurfTilt SurfAz DHI DNI HExtra SunZen SunAz AM modelt)
        = snd (perez_combined SurfTilt SurfAz DHI DNI HExtra SunZen SunAz AM modelt)"
    by (simp add: perez_def split: prod.split sum.split)
  then show ?thesis
    by (simp only: perez_combined_HExtra_after setitem_mask_map)
qed

lemma map2_fix_iff:
  "length xs = length ys \<Longrightarrow> (map2 f xs ys = xs) = list_all2 (\<lambda>x y. f x y = x) xs ys"
  by (induction xs ys rule: list_induct2) simp_all

lemma clamp_fix_iff: "(max (max g d) c = g) = (d \<le> g \<and> c \<le> (g::real))"
  by (auto simp: max_def)

text \<open>
  C4, as stated, fails: klucher1979 writes the clamped values into the caller's
  \<open>GHI\<close>. A caller who passes \<open>GHI = [50]\<close> with \<open>DHI = [100]\<close> finds
  \<open>GHI = [100]\<close> after the call.
\<close>

theorem klucher1979_overwrites_GHI:
  "snd (klucher1979 30 180 [100] [50] [40] [180]) = [100]
   \<and> snd (klucher1979 30 180 [100] [50] [40] [180]) \<noteq> [50]"
  by (simp add: klucher1979_def Let_def setitem_mask_def setitem_mask_series_def)

text \<open>
  C4, amended. klucher1979 and perez overwrite rows of the caller's Series in place.
  After klucher1979 every row of the caller's \<open>GHI\<close> holds \<open>max(max(GHI, DHI), 1e-6)\<close>,
  so \<open>GHI\<close> is as before exactly when every row already had \<open>GHI \<ge> DHI\<close> and
  \<open>GHI \<ge> 1e-6\<close>. After perez the rows of \<open>HExtra\<close> that were 0 hold \<open>1e-8\<close>, so
  \<open>HExtra\<close> is as before exactly when no row was 0.
\<close>

theorem inplace_overwrites:
  assumes "length DHI = length GHI"
  shows "snd (klucher1979 SurfTilt SurfAz DHI GHI SunZen SunAz)
           = map2 (\<lambda>ghi dhi. max (max ghi dhi) 0.000001) GHI DHI
       \<and> (snd (klucher1979 SurfTilt SurfAz DHI GHI SunZen SunAz) = GHI)
           = list_all2 (\<lambda>ghi dhi. dhi \<le> ghi \<and> 0.000001 \<le> ghi) GHI DHI
       \<and> snd (perez SurfTilt' SurfAz' DHI' DNI HExtra SunZen' SunAz' AM modelt)
           = map (\<lambda>h. if h = 0 then 0.00000001 else h) HExtra
       \<and> (snd (perez SurfTilt' SurfAz' DHI' DNI HExtra SunZen' SunAz' AM modelt) = HExtra)
           = (0 \<notin> set HExtra)"
proof -
  have k: "snd (klucher1979 SurfTilt SurfAz DHI GHI SunZen SunAz)
           = map2 (\<lambda>ghi dhi. max (max ghi dhi) 0.000001) GHI DHI"
    using assms by (rule klucher1979_GHI_after)
  have "(map2 (\<lambda>ghi dhi. max (max ghi dhi) 0.000001) GHI DHI = GHI)
        = list_all2 (\<lambda>ghi dhi. max (max ghi dhi) 0.000001 = ghi) GHI DHI"
    using assms by (intro map2_fix_iff) simp
  then have kfix: "(map2 (\<lambda>ghi dhi. max (max ghi dhi) 0.000001) GHI DHI = GHI)
        = list_all2 (\<lambda>ghi dhi. dhi \<le> ghi \<and> 0.000001 \<le> ghi) GHI DHI"
    by (simp only: clamp_fix_iff)
  have p: "snd (perez SurfTilt' SurfAz' DHI' DNI HExtra SunZen' SunAz' AM modelt)
           = map (\<lambda>h. if h = 0 then 0.00000001 else h) HExtra"
    by (rule perez_HExtra_after)
  have pfix: "(map (\<lambda>h. if h = 0 then 0.00000001 else h) HExtra = HExtra) = (0 \<notin> set HExtra)"
    by (induction HExtra) auto
  show ?thesis
    unfolding k p kfix pfix by simp
qed

theorem inplace_overwrites_witness:
  "length [100::real] = length [500::real]
   \<and> snd (klucher1979 30 180 [100] [500] [40] [180]) = [500]
   \<and> snd (perez 30 180 [100] [800] [0] [40] [180] [1.5] ''allsitescomposite1990'')
       = [0.00000001]"
  using inplace_overwrites [of "[100]" "[500]" 30 180 "[40]" "[180]" 30 180 "[100]" "[800]" "[0]"
      "[40]" "[180]" "[1.5]" "''allsitescomposite1990''"]
  by simp

subsection \<open>Model names\<close>

lemma coeffdict_keys:
  "map fst coeffdict =
     [''allsitescomposite1990'', ''allsitescomposite1988'', ''sandiacomposite1988'',
      ''usacomposite1988'', ''france1988'', ''phoenix1988'', ''elmonte1988'', ''osage1988'',
      ''albuquerque1988'', ''capecanaveral1988'', ''albany1988'']"
  by (simp add: coeffdict_def)

lemma np_array_error: "np_array rows = Inl err \<Longrightarrow> err = ValueError"
  by (auto simp: np_array_def split: list.splits if_splits)

lemma GetPerezCoefficients_KeyError:
  "(GetPerezCoefficients m = Inl (KeyError k)) = (k = m \<and> m \<notin> set (map fst coeffdict))"
proof (cases "map_of coeffdict m")
  case None
  then have "m \<notin> set (map fst coeffdict)"
    by (simp add: map_of_eq_None_iff)
  with None show ?thesis
    by (auto simp: GetPerezCoefficients_def)
next
  case (Some rows)
  then have "m \<in> set (map fst coeffdict)"
    using map_of_eq_None_iff [of coeffdict m] by auto
  moreover have "GetPerezCoefficients m \<noteq> Inl (KeyError k)"
    using Some np_array_error [of rows]
    by (auto simp: GetPerezCoefficients_def Let_def split: sum.splits)
  ultimately show ?thesis by simp
qed

lemma axis_index_error: "axis_index n i = Inl err \<Longrightarrow> err = IndexError"
  by (auto simp: axis_index_def split: if_splits)

lemma getitem_rows_col_error: "getitem_rows_col m rs c = Inl err \<Longrightarrow> err = IndexError"
  by (induction rs arbitrary: err)
     (auto split: sum.splits dest: axis_index_error)

lemma perez_F_error: "perez_F Fc ebin d z = Inl err \<Longrightarrow> err = IndexError"
  by (auto simp: perez_F_def Let_def split: sum.splits dest: getitem_rows_col_error)

lemma perez_combined_KeyError:
  "(fst (perez_combined SurfTilt SurfAz DHI DNI HExtra SunZen SunAz AM modelt) = Inl (KeyError k))
   = (GetPerezCoefficients modelt = Inl (KeyError k))"
  unfolding perez_combined_def Let_def
  by (auto split: sum.splits prod.splits dest: perez_F_error)

lemma perez_KeyError:
  "(fst (perez SurfTilt SurfAz DHI DNI HExtra SunZen SunAz AM modelt) = Inl (KeyError k))
   = (GetPerezCoefficients modelt = Inl (KeyError k))"
proof -
  have "(fst (perez SurfTilt SurfAz DHI DNI HExtra SunZen SunAz AM modelt) = Inl (KeyError k))
      = (fst (perez_combined SurfTilt SurfAz DHI DNI HExtra SunZen SunAz AM modelt)
         = Inl (KeyError k))"
    by (auto simp: perez_def split: prod.splits sum.splits)
  then show ?thesis by (simp only: perez_combined_KeyError)
qed

text \<open>
  A name gets \<open>KeyError\<close> from GetPerezCoefficients, and from perez, exactly when it is
  none of the eleven keys; \<open>not_a_model\<close> and the historical name \<open>1990\<close> are no keys.
\<close>

lemma KeyError_iff_no_key:
  "(let names = [''allsitescomposite1990'', ''allsitescomposite1988'', ''sandiacomposite1988'',
                 ''usacomposite1988'', ''france1988'', ''phoenix1988'', ''elmonte1988'',
                 ''osage1988'', ''albuquerque1988'', ''capecanaveral1988'', ''albany1988'']
    in length names = 11 \<and> distinct names
     \<and> (GetPerezCoefficients modelt = Inl (KeyError modelt)) = (modelt \<notin> set names)
     \<and> (fst (perez SurfTilt SurfAz DHI DNI HExtra SunZen SunAz AM modelt)
          = Inl (KeyError modelt)) = (modelt \<notin> set names)
     \<and> GetPerezCoefficients ''not_a_model'' = Inl (KeyError ''not_a_model''))"
proof -
  have a: "(GetPerezCoefficients modelt = Inl (KeyError modelt))
           = (modelt \<notin> set (map fst coeffdict))"
    by (simp add: GetPerezCoefficients_KeyError)
  have b: "(fst (perez SurfTilt SurfAz DHI DNI HExtra SunZen SunAz AM modelt)
              = Inl (KeyError modelt)) = (modelt \<notin> set (map fst coeffdict))"
    by (simp add: perez_KeyError GetPerezCoefficients_KeyError)
  have c: "GetPerezCoefficients ''not_a_model'' = Inl (KeyError ''not_a_model'')"
    by (simp add: GetPerezCoefficients_KeyError coeffdict_keys)
  show ?thesis
    unfolding Let_def a b using c by (simp add: coeffdict_keys)
qed

lemma KeyError_1990:
  "GetPerezCoefficients ''1990'' = Inl (KeyError ''1990'')
   \<and> fst (perez 30 180 [100] [800] [1400] [30] [180] [1.5] ''1990'') = Inl (KeyError ''1990'')"
  using KeyError_iff_no_key [of "''1990''" 30 180 "[100]" "[800]" "[1400]" "[30]" "[180]" "[1.5]"]
  by (simp add: Let_def)

text \<open>
  The key \<open>allsitescomposite1988\<close> is refused all the same, whatever the other arguments
  of perez: its table is the one with a row of seven entries.
\<close>

lemma map_of_allsitescomposite1988:
  "map_of coeffdict ''allsitescomposite1988'' = Some allsitescomposite1988"
  by (simp add: coeffdict_def)

lemma np_array_allsitescomposite1988: "np_array allsitescomposite1988 = Inl ValueError"
  by (simp add: allsitescomposite1988_def np_array_def)

lemma GetPerezCoefficients_allsitescomposite1988:
  "GetPerezCoefficients ''allsitescomposite1988'' = Inl ValueError"
  by (simp add: GetPerezCoefficients_def map_of_allsitescomposite1988
      np_array_allsitescomposite1988)

lemma perez_allsitescomposite1988:
  "fst (perez SurfTilt SurfAz DHI DNI HExtra SunZen SunAz AM ''allsitescomposite1988'')
   = Inl ValueError"
  by (simp add: perez_def perez_combined_def Let_def GetPerezCoefficients_allsitescomposite1988)

text \<open>
  C3 fails on the code. \<open>allsitescomposite1988\<close> is one of the eleven enumerated names
  and a key of the dictionary, and neither function accepts it: GetPerezCoefficients raises
  \<open>ValueError\<close> when it makes an array of the table, and so does perez, for a row of
  valid measurements. The other ten names are accepted (the lemmas on the ten tables
  below), and a name that is no key gets \<open>KeyError\<close> (the lemma above).
\<close>

theorem allsitescomposite1988_not_accepted:
  "map_of coeffdict ''allsitescomposite1988'' = Some allsitescomposite1988
   \<and> GetPerezCoefficients ''allsitescomposite1988'' = Inl ValueError
   \<and> fst (perez 30 180 [100] [800] [1400] [30] [180] [1.5] ''allsitescomposite1988'')
       = Inl ValueError"
  by (simp add: map_of_allsitescomposite1988 GetPerezCoefficients_allsitescomposite1988
      perez_allsitescomposite1988)

subsection \<open>perez: the stages as maps over the rows\<close>

text \<open>
  Series on one index are the columns of one list of rows: \<open>map dhi rs\<close>,
  \<open>map dni rs\<close> and so on. Every stage of perez is then a map over the rows, or over
  the rows that have a bin, and the stages compose to \<open>perez_row_spec\<close>.
\<close>

lemma getitem_mask_map: "getitem_mask (map p rs) (map f rs) = map f (filter p rs)"
  by (induction rs) (simp_all add: getitem_mask_def)

lemma perez_e_rows:
  "perez_e k (map dhi rs) (map dni rs) (map z rs)
   = map (\<lambda>r. if 0 < dhi r
               then Some (((dhi r + dni r) / dhi r + k * z r ^ 3) / (1 + k * z r ^ 3))
               else None) rs"
  by (induction rs) (simp_all add: perez_e_def)

lemma perez_ebin_rows: "perez_ebin (map g rs) = map (\<lambda>r. bin_of (g r)) rs"
proof (induction rs)
  case Nil
  show ?case by (simp add: perez_ebin_def setitem_mask_def)
next
  case (Cons r rs)
  have "perez_ebin (map g (r # rs)) = bin_of (g r) # perez_ebin (map g rs)"
    by (cases "g r")
       (simp_all add: perez_ebin_def Let_def setitem_mask_def nan_lt_def nan_ge_def bin_of_def
          perez_bin_spec_def)
  with Cons show ?case by simp
qed

lemma zip_map_same: "zip (map f xs) (map g xs) = map (\<lambda>x. (f x, g x)) xs"
  by (induction xs) simp_all

lemma getitem_rows_col_rows:
  assumes "\<forall>r \<in> set rs. 0 \<le> g r \<and> g r < int (fst (shape m))"
    and "0 \<le> c" "c < int (snd (shape m))"
  shows "getitem_rows_col m (map g rs) c = Inr (map (\<lambda>r. m ! nat (g r) ! nat c) rs)"
  using assms by (induction rs) (simp_all add: axis_index_def)

lemma perez_F_rows:
  assumes "\<forall>r \<in> set rs. 0 \<le> g r \<and> g r < int (fst (shape Fc))" and "snd (shape Fc) = 3"
  shows "perez_F Fc (map g rs) (map d rs) (map z rs)
         = Inr (map (\<lambda>r. max 0 (Fc ! nat (g r) ! 0 + Fc ! nat (g r) ! 1 * d r
                                 + Fc ! nat (g r) ! 2 * z r)) rs)"
proof -
  have c0: "getitem_rows_col Fc (map g rs) 0 = Inr (map (\<lambda>r. Fc ! nat (g r) ! 0) rs)"
    using getitem_rows_col_rows [of rs g Fc 0] assms by simp
  have c1: "getitem_rows_col Fc (map g rs) 1 = Inr (map (\<lambda>r. Fc ! nat (g r) ! 1) rs)"
    using getitem_rows_col_rows [of rs g Fc 1] assms by simp
  have c2: "getitem_rows_col Fc (map g rs) 2 = Inr (map (\<lambda>r. Fc ! nat (g r) ! 2) rs)"
    using getitem_rows_col_rows [of rs g Fc 2] assms by simp
  define F where "F = map (\<lambda>r. Fc ! nat (g r) ! 0 + Fc ! nat (g r) ! 1 * d r
                                 + Fc ! nat (g r) ! 2 * z r) rs"
  have z: "map (\<lambda>(a, b, d, c, zi). a + b * d + c * zi)
             (zip (map (\<lambda>r. Fc ! nat (g r) ! 0) rs)
                (zip (map (\<lambda>r. Fc ! nat (g r) ! 1) rs)
                   (zip (map d rs) (zip (map (\<lambda>r. Fc ! nat (g r) ! 2) rs) (map z rs))))) = F"
    unfolding F_def by (simp add: zip_map_same)
  have m: "setitem_mask (map (\<lambda>f. f < 0) F) 0 F = map (\<lambda>f. max 0 f) F"
    unfolding setitem_mask_map by (simp add: max_def)
  have "perez_F Fc (map g rs) (map d rs) (map z rs) = Inr (map (\<lambda>f. max 0 f) F)"
    unfolding perez_F_def c0 c1 c2 by (simp only: sum.case Let_def z m)
  then show ?thesis
    unfolding F_def by (simp add: comp_def)
qed

lemma perez_bin_spec_less: "perez_bin_spec e < 8"
  by (simp add: perez_bin_spec_def)

lemma bin_of_pos: "(0 < bin_of x) = (x \<noteq> None)"
  by (cases x) (simp_all add: bin_of_def)

lemma COSTT_of_rows:
  "COSTT_of t a (map zen rs) (map az rs)
   = map (\<lambda>r. cosd t * cosd (zen r) + sind t * sind (zen r) * cosd (az r - a)) rs"
  by (simp add: COSTT_of_def zip_map_same)

lemma perez_rows:
  fixes rs :: "'r list" and dhi dni hx zen az am :: "'r \<Rightarrow> real"
  assumes len: "length table = 8" and wid: "\<forall>f \<in> set table. length f = 6"
    and coef: "GetPerezCoefficients modelt = Inr (map (take 3) table, map (drop 3) table)"
  shows "fst (perez SurfTilt SurfAz (map dhi rs) (map dni rs) (map hx rs) (map zen rs) (map az rs)
                (map am rs) modelt)
         = Inr (map (\<lambda>r. perez_row_spec SurfTilt SurfAz table
                            (dhi r, dni r, hx r, zen r, az r, am r))
                  (filter (\<lambda>r. 0 < dhi r) rs))"
proof -
  define k :: real where "k = 1.041"
  define zf where "zf r = zen r * pi / 180" for r
  define ef where "ef r = ((dhi r + dni r) / dhi r + k * zf r ^ 3) / (1 + k * zf r ^ 3)" for r
  define bf where "bf r = int (perez_bin_spec (ef r))" for r
  define hf where "hf r = (if hx r = 0 then 0.00000001 else hx r)" for r
  define df where "df r = dhi r * am r / hf r" for r
  define F1c where "F1c = map (take 3) table"
  define F2c where "F2c = map (drop 3) table"
  define f1 where "f1 r = max 0 (F1c ! nat (bf r) ! 0 + F1c ! nat (bf r) ! 1 * df r
                                  + F1c ! nat (bf r) ! 2 * zf r)" for r
  define f2 where "f2 r = max 0 (F2c ! nat (bf r) ! 0 + F2c ! nat (bf r) ! 1 * df r
                                  + F2c ! nat (bf r) ! 2 * zf r)" for r
  define Af where "Af r = max 0 (cosd SurfTilt * cosd (zen r)
                                 + sind SurfTilt * sind (zen r) * cosd (az r - SurfAz))" for r
  define Bf where "Bf r = max (cosd (zen r)) (cosd 85)" for r
  define cf where "cf r = dhi r * (0.5 * (1 - f1 r) * (1 + cosd SurfTilt) + f1 r * Af r / Bf r
                                   + f2 r * sind SurfTilt)" for r
  define ps where "ps = filter (\<lambda>r. 0 < dhi r) rs"
  have z: "map (\<lambda>zen. zen * pi / 180) (map zen rs) = map zf rs"
    by (simp add: zf_def)
  have e: "perez_e k (map dhi rs) (map dni rs) (map zf rs)
           = map (\<lambda>r. if 0 < dhi r then Some (ef r) else None) rs"
    unfolding ef_def by (rule perez_e_rows)
  have ebin8: "perez_ebin (map (\<lambda>r. if 0 < dhi r then Some (ef r) else None) rs)
               = map (\<lambda>r. bin_of (if 0 < dhi r then Some (ef r) else None)) rs"
    by (rule perez_ebin_rows)
  have filt: "map (\<lambda>b. 0 < b) (map (\<lambda>r. bin_of (if 0 < dhi r then Some (ef r) else None)) rs)
              = map (\<lambda>r. 0 < dhi r) rs"
    by (simp add: bin_of_pos)
  have ebin: "getitem_mask (map (\<lambda>r. 0 < dhi r) rs)
                (map (\<lambda>b. b - 1) (map (\<lambda>r. bin_of (if 0 < dhi r then Some (ef r) else None)) rs))
              = map bf ps"
  proof -
    have "getitem_mask (map (\<lambda>r. 0 < dhi r) rs)
            (map (\<lambda>r. bin_of (if 0 < dhi r then Some (ef r) else None) - 1) rs)
          = map (\<lambda>r. bin_of (if 0 < dhi r then Some (ef r) else None) - 1) ps"
      unfolding ps_def by (rule getitem_mask_map)
    also have "\<dots> = map bf ps"
      unfolding ps_def by (rule map_cong) (simp_all add: bin_of_def bf_def)
    finally show ?thesis by (simp add: comp_def)
  qed
  have hx1: "setitem_mask (map (\<lambda>h. h = 0) (map hx rs)) 0.00000001 (map hx rs) = map hf rs"
    unfolding setitem_mask_map hf_def by (simp add: comp_def)
  have delt: "map (\<lambda>(dhi, am, h). dhi * am / h) (zip (map dhi rs) (zip (map am rs) (map hf rs)))
              = map df rs"
    unfolding df_def by (simp add: zip_map_same)
  have gd: "getitem_mask (map (\<lambda>r. 0 < dhi r) rs) (map df rs) = map df ps"
    unfolding ps_def by (rule getitem_mask_map)
  have gz: "getitem_mask (map (\<lambda>r. 0 < dhi r) rs) (map zf rs) = map zf ps"
    unfolding ps_def by (rule getitem_mask_map)
  have gh: "getitem_mask (map (\<lambda>r. 0 < dhi r) rs) (map dhi rs) = map dhi ps"
    unfolding ps_def by (rule getitem_mask_map)
  have sh1: "shape F1c = (8, 3)"
    using len wid unfolding F1c_def shape_def by (cases table) simp_all
  have sh2: "shape F2c = (8, 3)"
    using len wid unfolding F2c_def shape_def by (cases table) simp_all
  have rng: "\<forall>r \<in> set ps. 0 \<le> bf r \<and> bf r < int 8"
    using perez_bin_spec_less by (simp add: bf_def)
  have F1: "perez_F F1c (map bf ps) (map df ps) (map zf ps) = Inr (map f1 ps)"
    unfolding f1_def using rng sh1 by (intro perez_F_rows) simp_all
  have F2: "perez_F F2c (map bf ps) (map df ps) (map zf ps) = Inr (map f2 ps)"
    unfolding f2_def using rng sh2 by (intro perez_F_rows) simp_all
  have A: "setitem_mask (map (\<lambda>a. a < 0) (COSTT_of SurfTilt SurfAz (map zen rs) (map az rs))) 0
             (COSTT_of SurfTilt SurfAz (map zen rs) (map az rs)) = map Af rs"
    unfolding setitem_mask_map COSTT_of_rows Af_def by (simp add: comp_def max_def)
  have B: "setitem_mask (map (\<lambda>b. b < cosd 85) (map cosd (map zen rs))) (cosd 85)
             (map cosd (map zen rs)) = map Bf rs"
    unfolding setitem_mask_map Bf_def by (simp add: comp_def max_def)
  have gA: "getitem_mask (map (\<lambda>r. 0 < dhi r) rs) (map Af rs) = map Af ps"
    unfolding ps_def by (rule getitem_mask_map)
  have gB: "getitem_mask (map (\<lambda>r. 0 < dhi r) rs) (map Bf rs) = map Bf ps"
    unfolding ps_def by (rule getitem_mask_map)
  have sky: "map (\<lambda>(dhi, f1, a, b, f2).
                    dhi * (0.5 * (1 - f1) * (1 + cosd SurfTilt) + f1 * a / b + f2 * sind SurfTilt))
               (zip (map dhi ps) (zip (map f1 ps) (zip (map Af ps) (zip (map Bf ps) (map f2 ps)))))
             = map cf ps"
    unfolding cf_def by (simp add: zip_map_same)
  have comb: "perez_combined SurfTilt SurfAz (map dhi rs) (map dni rs) (map hx rs) (map zen rs)
                (map az rs) (map am rs) modelt = (Inr (map cf ps), map hf rs)"
    unfolding perez_combined_def Let_def z k_def [symmetric] e ebin8 filt ebin hx1 delt gd gz gh
      coef F1c_def [symmetric] F2c_def [symmetric]
    by (simp only: sum.case prod.case F1 F2 A B gA gB sky)
  have fl: "setitem_mask (map (\<lambda>s. s \<le> 0) (map cf ps)) 0 (map cf ps)
            = map (\<lambda>r. max (cf r) 0) ps"
    unfolding setitem_mask_map by (simp add: comp_def max_def)
  have "fst (perez SurfTilt SurfAz (map dhi rs) (map dni rs) (map hx rs) (map zen rs) (map az rs)
                (map am rs) modelt) = Inr (map (\<lambda>r. max (cf r) 0) ps)"
    unfolding perez_def comb by (simp only: prod.case sum.case fst_conv fl)
  moreover have "map (\<lambda>r. max (cf r) 0) ps
        = map (\<lambda>r. perez_row_spec SurfTilt SurfAz table (dhi r, dni r, hx r, zen r, az r, am r)) ps"
  proof (rule map_cong [OF refl])
    fix r assume "r \<in> set ps"
    have b: "perez_bin_spec (ef r) < length table"
      using perez_bin_spec_less [of "ef r"] len by simp
    then have w: "length (table ! perez_bin_spec (ef r)) = 6"
      using wid by simp
    have t1: "F1c ! nat (bf r) ! 0 = table ! perez_bin_spec (ef r) ! 0"
         "F1c ! nat (bf r) ! 1 = table ! perez_bin_spec (ef r) ! 1"
         "F1c ! nat (bf r) ! 2 = table ! perez_bin_spec (ef r) ! 2"
      using b unfolding F1c_def bf_def by simp_all
    have t2: "F2c ! nat (bf r) ! 0 = table ! perez_bin_spec (ef r) ! 3"
         "F2c ! nat (bf r) ! 1 = table ! perez_bin_spec (ef r) ! 4"
         "F2c ! nat (bf r) ! 2 = table ! perez_bin_spec (ef r) ! 5"
      using b w unfolding F2c_def bf_def by simp_all
    show "max (cf r) 0
          = perez_row_spec SurfTilt SurfAz table (dhi r, dni r, hx r, zen r, az r, am r)"
      unfolding perez_row_spec_def prod.case Let_def cf_def f1_def f2_def t1 t2 Af_def Bf_def
        df_def hf_def ef_def zf_def k_def
      by (rule refl)
  qed
  ultimately show ?thesis
    unfolding ps_def by simp
qed

subsection \<open>perez: the ten tables of eight rows and six columns\<close>

text \<open>
  All tables but \<open>allsitescomposite1988\<close> have eight rows of six entries, and
  GetPerezCoefficients returns their columns 0 to 2 and 3 to 5.
\<close>

lemma GetPerezCoefficients_allsitescomposite1990:
  "GetPerezCoefficients ''allsitescomposite1990'' = Inr (map (take 3) allsitescomposite1990, map (drop 3) allsitescomposite1990)"
  by (simp add: GetPerezCoefficients_def coeffdict_def np_array_def T_slice_T_def allsitescomposite1990_def)

lemma shape_allsitescomposite1990: "length allsitescomposite1990 = 8 \<and> (\<forall>f \<in> set allsitescomposite1990. length f = 6)"
  by (simp add: allsitescomposite1990_def)

lemma GetPerezCoefficients_sandiacomposite1988:
  "GetPerezCoefficients ''sandiacomposite1988'' = Inr (map (take 3) sandiacomposite1988, map (drop 3) sandiacomposite1988)"
  by (simp add: GetPerezCoefficients_def coeffdict_def np_array_def T_slice_T_def sandiacomposite1988_def)

lemma shape_sandiacomposite1988: "length sandiacomposite1988 = 8 \<and> (\<forall>f \<in> set sandiacomposite1988. length f = 6)"
  by (simp add: sandiacomposite1988_def)

lemma GetPerezCoefficients_usacomposite1988:
  "GetPerezCoefficients ''usacomposite1988'' = Inr (map (take 3) usacomposite1988, map (drop 3) usacomposite1988)"
  by (simp add: GetPerezCoefficients_def coeffdict_def np_array_def T_slice_T_def usacomposite1988_def)

lemma shape_usacomposite1988: "length usacomposite1988 = 8 \<and> (\<forall>f \<in> set usacomposite1988. length f = 6)"
  by (simp add: usacomposite1988_def)

lemma GetPerezCoefficients_france1988:
  "GetPerezCoefficients ''france1988'' = Inr (map (take 3) france1988, map (drop 3) france1988)"
  by (simp add: GetPerezCoefficients_def coeffdict_def np_array_def T_slice_T_def france1988_def)

lemma shape_france1988: "length france1988 = 8 \<and> (\<forall>f \<in> set france1988. length f = 6)"
  by (simp add: france1988_def)

lemma GetPerezCoefficients_phoenix1988:
  "GetPerezCoefficients ''phoenix1988'' = Inr (map (take 3) phoenix1988, map (drop 3) phoenix1988)"
  by (simp add: GetPerezCoefficients_def coeffdict_def np_array_def T_slice_T_def phoenix1988_def)

lemma shape_phoenix1988: "length phoenix1988 = 8 \<and> (\<forall>f \<in> set phoenix1988. length f = 6)"
  by (simp add: phoenix1988_def)

lemma GetPerezCoefficients_elmonte1988:
  "GetPerezCoefficients ''elmonte1988'' = Inr (map (take 3) elmonte1988, map (drop 3) elmonte1988)"
  by (simp add: GetPerezCoefficients_def coeffdict_def np_array_def T_slice_T_def elmonte1988_def)

lemma shape_elmonte1988: "length elmonte1988 = 8 \<and> (\<forall>f \<in> set elmonte1988. length f = 6)"
  by (simp add: elmonte1988_def)

lemma GetPerezCoefficients_osage1988:
  "GetPerezCoefficients ''osage1988'' = Inr (map (take 3) osage1988, map (drop 3) osage1988)"
  by (simp add: GetPerezCoefficients_def coeffdict_def np_array_def T_slice_T_def osage1988_def)

lemma shape_osage1988: "length osage1988 = 8 \<and> (\<forall>f \<in> set osage1988. length f = 6)"
  by (simp add: osage1988_def)

lemma GetPerezCoefficients_albuquerque1988:
  "GetPerezCoefficients ''albuquerque1988'' = Inr (map (take 3) albuquerque1988, map (drop 3) albuquerque1988)"
  by (simp add: GetPerezCoefficients_def coeffdict_def np_array_def T_slice_T_def albuquerque1988_def)

lemma shape_albuquerque1988: "length albuquerque1988 = 8 \<and> (\<forall>f \<in> set albuquerque1988. length f = 6)"
  by (simp add: albuquerque1988_def)

lemma GetPerezCoefficients_capecanaveral1988:
  "GetPerezCoefficients ''capecanaveral1988'' = Inr (map (take 3) capecanaveral1988, map (drop 3) capecanaveral1988)"
  by (simp add: GetPerezCoefficients_def coeffdict_def np_array_def T_slice_T_def capecanaveral1988_def)

lemma shape_capecanaveral1988: "length capecanaveral1988 = 8 \<and> (\<forall>f \<in> set capecanaveral1988. length f = 6)"
  by (simp add: capecanaveral1988_def)

lemma GetPerezCoefficients_albany1988:
  "GetPerezCoefficients ''albany1988'' = Inr (map (take 3) albany1988, map (drop 3) albany1988)"
  by (simp add: GetPerezCoefficients_def coeffdict_def np_array_def T_slice_T_def albany1988_def)

lemma shape_albany1988: "length albany1988 = 8 \<and> (\<forall>f \<in> set albany1988. length f = 6)"
  by (simp add: albany1988_def)

lemma coeffdict_cases:
  assumes "map_of coeffdict m = Some table"
  shows "(m, table) \<in> {(''allsitescomposite1990'', allsitescomposite1990),
      (''allsitescomposite1988'', allsitescomposite1988),
      (''sandiacomposite1988'', sandiacomposite1988),
      (''usacomposite1988'', usacomposite1988),
      (''france1988'', france1988),
      (''phoenix1988'', phoenix1988),
      (''elmonte1988'', elmonte1988),
      (''osage1988'', osage1988),
      (''albuquerque1988'', albuquerque1988),
      (''capecanaveral1988'', capecanaveral1988),
      (''albany1988'', albany1988)}"
proof -
  have "(m, table) \<in> set coeffdict"
    using assms by (rule map_of_SomeD)
  then show ?thesis
    unfolding coeffdict_def by (simp only: list.set)
qed

lemma table_wellformed:
  assumes "map_of coeffdict m = Some table" and "m \<noteq> ''allsitescomposite1988''"
  shows "length table = 8 \<and> (\<forall>f \<in> set table. length f = 6)
       \<and> GetPerezCoefficients m = Inr (map (take 3) table, map (drop 3) table)"
proof -
  have "(m, table) \<in> {(''allsitescomposite1990'', allsitescomposite1990),
      (''allsitescomposite1988'', allsitescomposite1988),
      (''sandiacomposite1988'', sandiacomposite1988),
      (''usacomposite1988'', usacomposite1988),
      (''france1988'', france1988),
      (''phoenix1988'', phoenix1988),
      (''elmonte1988'', elmonte1988),
      (''osage1988'', osage1988),
      (''albuquerque1988'', albuquerque1988),
      (''capecanaveral1988'', capecanaveral1988),
      (''albany1988'', albany1988)}"
    using assms(1) by (rule coeffdict_cases)
  then consider
    "m = ''allsitescomposite1990''" "table = allsitescomposite1990"
  |
    "m = ''sandiacomposite1988''" "table = sandiacomposite1988"
  |
    "m = ''usacomposite1988''" "table = usacomposite1988"
  |
    "m = ''france1988''" "table = france1988"
  |
    "m = ''phoenix1988''" "table = phoenix1988"
  |
    "m = ''elmonte1988''" "table = elmonte1988"
  |
    "m = ''osage1988''" "table = osage1988"
  |
    "m = ''albuquerque1988''" "table = albuquerque1988"
  |
    "m = ''capecanaveral1988''" "table = capecanaveral1988"
  |
    "m = ''albany1988''" "table = albany1988"
    using assms(2) by (elim insertE emptyE) (simp_all only: prod.inject, blast+)
  then show ?thesis
  proof cases
    case 1
    then show ?thesis
      using GetPerezCoefficients_allsitescomposite1990 shape_allsitescomposite1990 by simp
  next
    case 2
    then show ?thesis
      using GetPerezCoefficients_sandiacomposite1988 shape_sandiacomposite1988 by simp
  next
    case 3
    then show ?thesis
      using GetPerezCoefficients_usacomposite1988 shape_usacomposite1988 by simp
  next
    case 4
    then show ?thesis
      using GetPerezCoefficients_france1988 shape_france1988 by simp
  next
    case 5
    then show ?thesis
      using GetPerezCoefficients_phoenix1988 shape_phoenix1988 by simp
  next
    case 6
    then show ?thesis
      using GetPerezCoefficients_elmonte1988 shape_elmonte1988 by simp
  next
    case 7
    then show ?thesis
      using GetPerezCoefficients_osage1988 shape_osage1988 by simp
  next
    case 8
    then show ?thesis
      using GetPerezCoefficients_albuquerque1988 shape_albuquerque1988 by simp
  next
    case 9
    then show ?thesis
      using GetPerezCoefficients_capecanaveral1988 shape_capecanaveral1988 by simp
  next
    case 10
    then show ?thesis
      using GetPerezCoefficients_albany1988 shape_albany1988 by simp
  qed
qed

text \<open>Six Series of one length are the columns of their zip.\<close>

lemma zip6_projections:
  assumes "length a = n" "length b = n" "length c = n" "length d = n" "length e = n"
    "length f = n"
  defines "rs \<equiv> zip a (zip b (zip c (zip d (zip e f))))"
  shows "map fst rs = a"
    and "map (\<lambda>r. fst (snd r)) rs = b"
    and "map (\<lambda>r. fst (snd (snd r))) rs = c"
    and "map (\<lambda>r. fst (snd (snd (snd r)))) rs = d"
    and "map (\<lambda>r. fst (snd (snd (snd (snd r))))) rs = e"
    and "map (\<lambda>r. snd (snd (snd (snd (snd r))))) rs = f"
proof -
  have l: "length (zip e f) = n" "length (zip d (zip e f)) = n"
    "length (zip c (zip d (zip e f))) = n" "length (zip b (zip c (zip d (zip e f)))) = n"
    using assms(1-6) by simp_all
  have s1: "map snd rs = zip b (zip c (zip d (zip e f)))"
    unfolding rs_def using assms(1) l by simp
  have s2: "map (\<lambda>r. snd (snd r)) rs = zip c (zip d (zip e f))"
    using arg_cong [OF s1, of "map snd"] assms(2) l by (simp add: comp_def)
  have s3: "map (\<lambda>r. snd (snd (snd r))) rs = zip d (zip e f)"
    using arg_cong [OF s2, of "map snd"] assms(3) l by (simp add: comp_def)
  have s4: "map (\<lambda>r. snd (snd (snd (snd r)))) rs = zip e f"
    using arg_cong [OF s3, of "map snd"] assms(4) l by (simp add: comp_def)
  show "map fst rs = a"
    unfolding rs_def using assms(1) l by simp
  show "map (\<lambda>r. fst (snd r)) rs = b"
    using arg_cong [OF s1, of "map fst"] assms(2) l by (simp add: comp_def)
  show "map (\<lambda>r. fst (snd (snd r))) rs = c"
    using arg_cong [OF s2, of "map fst"] assms(3) l by (simp add: comp_def)
  show "map (\<lambda>r. fst (snd (snd (snd r)))) rs = d"
    using arg_cong [OF s3, of "map fst"] assms(4) l by (simp add: comp_def)
  show "map (\<lambda>r. fst (snd (snd (snd (snd r))))) rs = e"
    using arg_cong [OF s4, of "map fst"] assms(5,6) by (simp add: comp_def)
  show "map (\<lambda>r. snd (snd (snd (snd (snd r))))) rs = f"
    using arg_cong [OF s4, of "map snd"] assms(5,6) by (simp add: comp_def)
qed

lemma perez_rowwise:
  assumes "length DHI = n" "length DNI = n" "length HExtra = n" "length SunZen = n"
    "length SunAz = n" "length AM = n"
    and "map_of coeffdict modelt = Some table" and "modelt \<noteq> ''allsitescomposite1988''"
  shows "fst (perez SurfTilt SurfAz DHI DNI HExtra SunZen SunAz AM modelt)
         = Inr (map (perez_row_spec SurfTilt SurfAz table)
                  (filter (\<lambda>row. 0 < fst row)
                     (zip DHI (zip DNI (zip HExtra (zip SunZen (zip SunAz AM)))))))"
proof -
  define rs where "rs = zip DHI (zip DNI (zip HExtra (zip SunZen (zip SunAz AM))))"
  note p = zip6_projections [OF assms(1-6), folded rs_def]
  have w: "length table = 8" "\<forall>f \<in> set table. length f = 6"
    "GetPerezCoefficients modelt = Inr (map (take 3) table, map (drop 3) table)"
    using table_wellformed [OF assms(7,8)] by simp_all
  have "fst (perez SurfTilt SurfAz (map fst rs) (map (\<lambda>r. fst (snd r)) rs)
               (map (\<lambda>r. fst (snd (snd r))) rs) (map (\<lambda>r. fst (snd (snd (snd r)))) rs)
               (map (\<lambda>r. fst (snd (snd (snd (snd r))))) rs)
               (map (\<lambda>r. snd (snd (snd (snd (snd r))))) rs) modelt)
        = Inr (map (\<lambda>r. perez_row_spec SurfTilt SurfAz table
                      (fst r, fst (snd r), fst (snd (snd r)), fst (snd (snd (snd r))),
                       fst (snd (snd (snd (snd r)))), snd (snd (snd (snd (snd r))))))
                 (filter (\<lambda>r. 0 < fst r) rs))"
    using w by (rule perez_rows)
  then show ?thesis
    unfolding p unfolding rs_def by simp
qed

subsection \<open>perez: a run\<close>

text \<open>
  A run of perez: a vertical surface, the sun at the zenith, the table \<open>osage1988\<close>.
  The first row has \<open>e = 10\<close> and falls in the last bin, with \<open>delt = 1/2\<close>,
  \<open>F1 = 14.6935\<close> and \<open>F2 = 4.872\<close>; the second row has \<open>DHI = 0\<close> and no bin.
\<close>

lemma cosd_le_one: "cosd x \<le> 1"
  by (simp add: cosd_def)

lemma not_one_less_cosd: "(1 < cosd x) = False"
  using cosd_le_one [of x] by simp

lemma perez_e_example: "perez_e k [100, 0] [900, 0] [0, 0] = [Some 10, None]"
  by (simp add: perez_e_def)

lemma perez_ebin_example: "perez_ebin [Some 10, None] = [8, 0]"
  by (simp add: perez_ebin_def Let_def setitem_mask_def nan_lt_def nan_ge_def)

lemma perez_F1_example: "perez_F (map (take 3) osage1988) [7] [1/2] [0] = Inr [14.6935]"
  by (simp add: perez_F_def osage1988_def shape_def axis_index_def setitem_mask_def)

lemma perez_F2_example: "perez_F (map (drop 3) osage1988) [7] [1/2] [0] = Inr [4.872]"
  by (simp add: perez_F_def osage1988_def shape_def axis_index_def setitem_mask_def)

lemma perez_combined_example:
  "perez_combined 90 180 [100, 0] [900, 0] [1400, 1400] [0, 0] [180, 180] [7, 7] ''osage1988''
   = (Inr [- 197.475], [1400, 1400])"
  by (simp add: perez_combined_def Let_def perez_e_example perez_ebin_example getitem_mask_def
      setitem_mask_def GetPerezCoefficients_osage1988 perez_F1_example perez_F2_example
      COSTT_of_def cosd_0 sind_0 cosd_90 sind_90 not_one_less_cosd)

lemma perez_example:
  "perez 90 180 [100, 0] [900, 0] [1400, 1400] [0, 0] [180, 180] [7, 7] ''osage1988''
   = (Inr [0], [1400, 1400])"
  by (simp add: perez_def perez_combined_example setitem_mask_def)

lemma map_of_osage1988: "map_of coeffdict ''osage1988'' = Some osage1988"
  by (simp add: coeffdict_def)

subsection \<open>perez: the divisors\<close>

text \<open>
  On a row with \<open>DHI > 0\<close> and \<open>SunZen \<ge> 0\<close> the four divisors of perez are not
  zero: \<open>DHI\<close>, \<open>1 + kappa z^3\<close>, the patched \<open>HExtra\<close> and \<open>B\<close>.
\<close>

lemma cosd_85_positive: "0 < cosd 85"
proof -
  have "0 < np_radians 85" and "np_radians 85 < pi / 2"
    by (simp_all add: np_radians_def)
  then show ?thesis
    unfolding cosd_def by (rule cos_gt_zero)
qed

lemma perez_divisors_nonzero:
  fixes dhi zen hextra :: real
  assumes "0 < dhi" "0 \<le> zen"
  shows "dhi \<noteq> 0"
    and "0 < 1 + 1.041 * (zen * pi / 180) ^ 3"
    and "(if hextra = 0 then 0.00000001 else hextra) \<noteq> 0"
    and "0 < max (cosd zen) (cosd 85)"
proof -
  show "dhi \<noteq> 0" using assms(1) by simp
  have "0 \<le> zen * pi / 180" using assms(2) by simp
  then have "0 \<le> (zen * pi / 180) ^ 3" by (rule zero_le_power)
  then have "0 \<le> 1.041 * (zen * pi / 180) ^ 3" by simp
  then show "0 < 1 + 1.041 * (zen * pi / 180) ^ 3" by linarith
  show "(if hextra = 0 then 0.00000001 else hextra) \<noteq> 0" by simp
  show "0 < max (cosd zen) (cosd 85)"
    using cosd_85_positive by (simp add: less_max_iff_disj)
qed

subsection \<open>perez: the floor under the result\<close>

lemma perez_floor:
  assumes "fst (perez SurfTilt SurfAz DHI DNI HExtra SunZen SunAz AM modelt) = Inr SkyDiffuse"
  shows "(\<forall>s \<in> set SkyDiffuse. 0 \<le> s)
       \<and> (case fst (perez_combined SurfTilt SurfAz DHI DNI HExtra SunZen SunAz AM modelt) of
            Inl err \<Rightarrow> False
          | Inr combined \<Rightarrow> SkyDiffuse = map (\<lambda>s. max s 0) combined)"
proof -
  obtain r h where c: "perez_combined SurfTilt SurfAz DHI DNI HExtra SunZen SunAz AM modelt = (r, h)"
    by (cases "perez_combined SurfTilt SurfAz DHI DNI HExtra SunZen SunAz AM modelt")
  show ?thesis
  proof (cases r)
    case (Inl err)
    with c assms show ?thesis by (simp add: perez_def)
  next
    case (Inr combined)
    with c assms have "SkyDiffuse = setitem_mask (map (\<lambda>s. s \<le> 0) combined) 0 combined"
      by (simp add: perez_def)
    then have s: "SkyDiffuse = map (\<lambda>s. max s 0) combined"
      by (simp add: setitem_mask_map max_def)
    then have "\<forall>s \<in> set SkyDiffuse. 0 \<le> s" by auto
    with s c Inr show ?thesis by simp
  qed
qed

text \<open>
  C7. Every element of the Series perez returns is non-negative: the Series is the
  combined expression
  \<open>DHI * (0.5 * (1 - F1) * (1 + cos SurfTilt) + F1 * A / B + F2 * sin SurfTilt)\<close>,
  as \<open>perez_combined\<close> computes it, with every row floored at 0. For Series of one
  length and each of the ten model names whose table has eight rows of six entries,
  perez does return, and its Series holds, for the rows with \<open>DHI > 0\<close> in order, the
  value the specification describes for the row.
\<close>

theorem perez_SkyDiffuse_floored:
  "(fst (perez SurfTilt SurfAz DHI DNI HExtra SunZen SunAz AM modelt) = Inr SkyDiffuse \<longrightarrow>
      (\<forall>s \<in> set SkyDiffuse. 0 \<le> s)
      \<and> (case fst (perez_combined SurfTilt SurfAz DHI DNI HExtra SunZen SunAz AM modelt) of
           Inl err \<Rightarrow> False
         | Inr combined \<Rightarrow> SkyDiffuse = map (\<lambda>s. max s 0) combined))
   \<and> (length DHI = n \<and> length DNI = n \<and> length HExtra = n \<and> length SunZen = n
      \<and> length SunAz = n \<and> length AM = n
      \<and> map_of coeffdict modelt = Some table \<and> modelt \<noteq> ''allsitescomposite1988'' \<longrightarrow>
      fst (perez SurfTilt SurfAz DHI DNI HExtra SunZen SunAz AM modelt)
      = Inr (map (perez_row_spec SurfTilt SurfAz table)
               (filter (\<lambda>row. 0 < fst row)
                  (zip DHI (zip DNI (zip HExtra (zip SunZen (zip SunAz AM))))))))"
proof (intro conjI impI)
  assume "fst (perez SurfTilt SurfAz DHI DNI HExtra SunZen SunAz AM modelt) = Inr SkyDiffuse"
  then have f: "(\<forall>s \<in> set SkyDiffuse. 0 \<le> s)
       \<and> (case fst (perez_combined SurfTilt SurfAz DHI DNI HExtra SunZen SunAz AM modelt) of
            Inl err \<Rightarrow> False
          | Inr combined \<Rightarrow> SkyDiffuse = map (\<lambda>s. max s 0) combined)"
    by (rule perez_floor)
  from f show "\<forall>s \<in> set SkyDiffuse. 0 \<le> s" by (rule conjunct1)
  from f show "case fst (perez_combined SurfTilt SurfAz DHI DNI HExtra SunZen SunAz AM modelt) of
            Inl err \<Rightarrow> False
          | Inr combined \<Rightarrow> SkyDiffuse = map (\<lambda>s. max s 0) combined"
    by (rule conjunct2)
next
  assume "length DHI = n \<and> length DNI = n \<and> length HExtra = n \<and> length SunZen = n
      \<and> length SunAz = n \<and> length AM = n
      \<and> map_of coeffdict modelt = Some table \<and> modelt \<noteq> ''allsitescomposite1988''"
  then show "fst (perez SurfTilt SurfAz DHI DNI HExtra SunZen SunAz AM modelt)
      = Inr (map (perez_row_spec SurfTilt SurfAz table)
               (filter (\<lambda>row. 0 < fst row)
                  (zip DHI (zip DNI (zip HExtra (zip SunZen (zip SunAz AM)))))))"
    by (elim conjE) (rule perez_rowwise)
qed

theorem perez_SkyDiffuse_floored_witness:
  "fst (perez 90 180 [100, 0] [900, 0] [1400, 1400] [0, 0] [180, 180] [7, 7] ''osage1988'')
     = Inr [0]
   \<and> fst (perez_combined 90 180 [100, 0] [900, 0] [1400, 1400] [0, 0] [180, 180] [7, 7]
            ''osage1988'') = Inr [- 197.475]
   \<and> [0 :: real] = map (\<lambda>s. max s 0) [- 197.475]
   \<and> map_of coeffdict ''osage1988'' = Some osage1988
   \<and> [perez_row_spec 90 180 osage1988 (100, 900, 1400, 0, 180, 7)] = [0]"
  using perez_SkyDiffuse_floored [of 90 180 "[100, 0]" "[900, 0]" "[1400, 1400]" "[0, 0]"
      "[180, 180]" "[7, 7]" "''osage1988''" "[0]" 2 osage1988]
  by (simp add: perez_example perez_combined_example map_of_osage1988)

end
